theory Spec2Isabelle
  imports Complex_Main
begin

text \<open>
  The orchestration core of xenohooks: configuration merging and loading, task selection,
  the task runner, the feedback store, the background queue with its poll and harvest,
  and the router that turns outcomes into the response for an event. Each definition
  follows the Python function it is named after; what a function reads from the
  operating system (clock, files, processes, hashes, parsers) is an argument.
\<close>

section \<open>Python strings\<close>

text \<open>
  A Python \<open>str\<close> is modelled as a \<open>string\<close> whose characters are the code points
  below 256. \<open>is_space\<close> lists the code points in that range that \<open>str.strip()\<close> removes;
  \<open>lower_char\<close> is \<open>str.lower()\<close> on that range (ASCII and Latin-1 capitals).
\<close>

definition is_space :: "char \<Rightarrow> bool" where
  "is_space c = ((of_char c :: nat) \<in> {9, 10, 11, 12, 13, 28, 29, 30, 31, 32, 133, 160})"

definition strip :: "string \<Rightarrow> string" where
  "strip s = rev (dropWhile is_space (rev (dropWhile is_space s)))"

definition lower_char :: "char \<Rightarrow> char" where
  "lower_char c =
     (let n = (of_char c :: nat)
      in if (65 \<le> n \<and> n \<le> 90) \<or> (192 \<le> n \<and> n \<le> 222 \<and> n \<noteq> 215)
         then char_of (n + 32) else c)"

definition lower :: "string \<Rightarrow> string" where
  "lower s = map lower_char s"

text \<open>\<open>s.split(sep)\<close> for a one-character separator: the pieces between separators.\<close>

fun split_on :: "char \<Rightarrow> string \<Rightarrow> string list" where
  "split_on sep [] = [[]]"
| "split_on sep (c # cs) =
     (if c = sep then [] # split_on sep cs
      else (case split_on sep cs of [] \<Rightarrow> [[c]] | p # ps \<Rightarrow> (c # p) # ps))"

text \<open>\<open>PurePosixPath(p).name\<close>: the last component, empty and \<open>.\<close> components dropped.\<close>

definition path_name :: "string \<Rightarrow> string" where
  "path_name p =
     (case rev (filter (\<lambda>c. c \<noteq> [] \<and> c \<noteq> ''.'') (split_on (CHR ''/'') p)) of
        [] \<Rightarrow> []
      | c # _ \<Rightarrow> c)"


section \<open>FeedbackStore (common/feedback.py)\<close>

text \<open>
  One row of table \<open>feedback_items\<close>, which is also the dataclass \<open>FeedbackItem\<close>.
  Timestamps are \<open>time.time()\<close> readings, taken as real numbers.
\<close>

record FeedbackItem =
  fi_instance_id :: string
  fi_issue_id :: string
  fi_content :: string
  fi_task_id :: string
  fi_severity :: "string option"
  fi_category :: "string option"
  fi_file_path :: "string option"
  fi_strategy :: string
  fi_first_seen :: real
  fi_last_seen :: real
  fi_occurrence_count :: int
  fi_times_shown :: int

text \<open>
  The feedback cache directory: one SQLite file per session, named by \<open>fb_db_name\<close>,
  holding the rows of its table in insertion order. A file that does not exist is \<open>None\<close>.
\<close>

type_synonym fb_table = "FeedbackItem list"
type_synonym fb_store = "string \<rightharpoonup> fb_table"

definition DEFAULT_DEDUP_WINDOW :: real where
  "DEFAULT_DEDUP_WINDOW = 300"

definition fb_db_name :: "string \<Rightarrow> string" where
  "fb_db_name session_id = take 16 (if session_id = [] then ''default'' else session_id)"

text \<open>\<open>_get_connection\<close>: connecting creates the file with an empty table when it is missing.\<close>

definition fb_get_connection :: "fb_store \<Rightarrow> string \<Rightarrow> fb_table" where
  "fb_get_connection store session_id =
     (case store (fb_db_name session_id) of None \<Rightarrow> [] | Some t \<Rightarrow> t)"

definition fb_commit :: "fb_store \<Rightarrow> string \<Rightarrow> fb_table \<Rightarrow> fb_store" where
  "fb_commit store session_id t = store(fb_db_name session_id \<mapsto> t)"

text \<open>\<open>sha\<close> stands for \<open>hashlib.sha256(s.encode("utf-8")).hexdigest()\<close>.\<close>

definition content_hash :: "(string \<Rightarrow> string) \<Rightarrow> string \<Rightarrow> string" where
  "content_hash sha content = take 16 (sha content)"

definition issue_id_of :: "(string \<Rightarrow> string) \<Rightarrow> string \<Rightarrow> string option \<Rightarrow> string \<Rightarrow> string" where
  "issue_id_of sha task_id file_path content =
     (let file_part = (case file_path of
                         None \<Rightarrow> ''global''
                       | Some p \<Rightarrow> if p = [] then ''global'' else path_name p);
          content_prefix = take 100 content;
          issue_hash = take 8 (sha content_prefix)
      in task_id @ '':'' @ file_part @ '':'' @ issue_hash)"

text \<open>\<open>DELETE FROM feedback_items WHERE last_seen < cutoff\<close>.\<close>

definition cleanup_expired :: "fb_table \<Rightarrow> real \<Rightarrow> real \<Rightarrow> fb_table" where
  "cleanup_expired t current_time window =
     (let cutoff = current_time - window
      in filter (\<lambda>r. \<not> fi_last_seen r < cutoff) t)"

definition select_issue :: "fb_table \<Rightarrow> string \<Rightarrow> FeedbackItem option" where
  "select_issue t iid = find (\<lambda>r. fi_issue_id r = iid) t"

definition empty_item :: "string \<Rightarrow> FeedbackItem" where
  "empty_item task_id =
     \<lparr> fi_instance_id = ''empty'', fi_issue_id = ''empty'', fi_content = [],
       fi_task_id = task_id, fi_severity = None, fi_category = None, fi_file_path = None,
       fi_strategy = ''always'', fi_first_seen = 0, fi_last_seen = 0,
       fi_occurrence_count = 1, fi_times_shown = 0 \<rparr>"

text \<open>
  \<open>record_feedback\<close> at clock reading \<open>now\<close>. The result is the returned item and the
  store afterwards.
\<close>

definition record_feedback ::
  "(string \<Rightarrow> string) \<Rightarrow> real \<Rightarrow> string \<Rightarrow> string \<Rightarrow> string \<Rightarrow> string option \<Rightarrow>
   string option \<Rightarrow> string option \<Rightarrow> string \<Rightarrow> fb_store \<Rightarrow> FeedbackItem \<times> fb_store" where
  "record_feedback sha now content task_id session_id file_path severity category strategy store =
     (if content = [] \<or> strip content = [] then (empty_item task_id, store)
      else
        let instance_id = content_hash sha (strip content);
            issue_id_str = issue_id_of sha task_id file_path (strip content);
            t0 = fb_get_connection store session_id;
            t1 = cleanup_expired t0 now DEFAULT_DEDUP_WINDOW;
            t2 = (case select_issue t1 issue_id_str of
                    Some _ \<Rightarrow>
                      map (\<lambda>r. if fi_issue_id r = issue_id_str
                                then r\<lparr> fi_instance_id := instance_id,
                                        fi_content := strip content,
                                        fi_last_seen := now,
                                        fi_occurrence_count := fi_occurrence_count r + 1 \<rparr>
                                else r) t1
                  | None \<Rightarrow>
                      t1 @ [\<lparr> fi_instance_id = instance_id, fi_issue_id = issue_id_str,
                              fi_content = strip content, fi_task_id = task_id,
                              fi_severity = severity, fi_category = category,
                              fi_file_path = file_path, fi_strategy = strategy,
                              fi_first_seen = now, fi_last_seen = now,
                              fi_occurrence_count = 1, fi_times_shown = 0 \<rparr>])
        in (the (select_issue t2 issue_id_str), fb_commit store session_id t2))"

definition should_show_feedback :: "FeedbackItem \<Rightarrow> bool" where
  "should_show_feedback item =
     (if fi_strategy item = ''always'' then True
      else if fi_strategy item = ''show_once'' then fi_times_shown item = 0
      else if fi_strategy item = ''summary_after_first'' then fi_times_shown item = 0
      else if fi_strategy item = ''defer'' then False
      else True)"

definition mark_shown :: "string \<Rightarrow> string \<Rightarrow> fb_store \<Rightarrow> fb_store" where
  "mark_shown iid session_id store =
     fb_commit store session_id
       (map (\<lambda>r. if fi_issue_id r = iid then r\<lparr> fi_times_shown := fi_times_shown r + 1 \<rparr> else r)
            (fb_get_connection store session_id))"



text \<open>\<open>cleanup_session\<close>: the session's database file is unlinked when it exists.\<close>

definition fb_cleanup_session :: "string \<Rightarrow> fb_store \<Rightarrow> fb_store" where
  "fb_cleanup_session session_id store = store(fb_db_name session_id := None)"





section \<open>Configuration values (common/config.py)\<close>

text \<open>
  What \<open>yaml.safe_load\<close> and \<open>json.load\<close> return. A Python dict keeps its keys in
  insertion order, so it is an association list; its keys are distinct (\<open>wf_json\<close>).
\<close>

datatype json =
    JNull
  | JBool bool
  | JInt int
  | JFloat real
  | JStr string
  | JList "json list"
  | JDict "(string \<times> json) list"

type_synonym pydict = "(string \<times> json) list"

fun wf_json :: "json \<Rightarrow> bool" where
  "wf_json (JList xs) = list_all wf_json xs"
| "wf_json (JDict kvs) = (distinct (map fst kvs) \<and> list_all wf_json (map snd kvs))"
| "wf_json _ = True"

text \<open>\<open>d.get(k)\<close>, \<open>d[k] = v\<close> (in place when the key exists, appended otherwise), \<open>d.pop(k, None)\<close>.\<close>

definition dict_get :: "(string \<times> 'v) list \<Rightarrow> string \<Rightarrow> 'v option" where
  "dict_get d k = map_of d k"

fun dict_set :: "(string \<times> 'v) list \<Rightarrow> string \<Rightarrow> 'v \<Rightarrow> (string \<times> 'v) list" where
  "dict_set [] k v = [(k, v)]"
| "dict_set ((k', v') # d) k v = (if k' = k then (k', v) # d else (k', v') # dict_set d k v)"

definition dict_pop :: "(string \<times> 'v) list \<Rightarrow> string \<Rightarrow> (string \<times> 'v) list" where
  "dict_pop d k = filter (\<lambda>kv. fst kv \<noteq> k) d"

definition EVENT_KEYS :: "string list" where
  "EVENT_KEYS = [''PreToolUse'', ''PostToolUse'', ''Notification'', ''UserPromptSubmit'', ''Stop'',
                 ''SubagentStop'', ''PreCompact'', ''SessionStart'', ''SessionEnd'']"

definition DEFAULTS :: pydict where
  "DEFAULTS =
     [(''concurrency'', JInt 6),
      (''default_timeout'', JInt 12),
      (''timeouts'', JDict []),
      (''policy'', JDict [(''missing_tool_is_warning'', JBool True),
                          (''treat_stderr_only_as_warning'', JBool True),
                          (''block_on'', JList [])]),
      (''PreToolUse'', JDict [(''tasks'', JList [])]),
      (''PostToolUse'', JDict [(''tasks'', JList [])]),
      (''UserPromptSubmit'', JDict [(''tasks'', JList [])]),
      (''Notification'', JDict [(''tasks'', JList [])]),
      (''Stop'', JDict [(''tasks'', JList [])]),
      (''SubagentStop'', JDict [(''tasks'', JList [])]),
      (''PreCompact'', JDict [(''tasks'', JList [])]),
      (''SessionStart'', JDict [(''tasks'', JList [])]),
      (''SessionEnd'', JDict [(''tasks'', JList [])])]"

text \<open>
  \<open>_merge\<close>: \<open>merge_into out b\<close> is the loop over \<open>b.items()\<close> acting on \<open>out\<close>, and
  \<open>merge_value\<close> is what the loop body stores under a key, given what \<open>out\<close> holds there.
\<close>

function merge_into :: "pydict \<Rightarrow> pydict \<Rightarrow> pydict"
  and merge_value :: "json option \<Rightarrow> json \<Rightarrow> json" where
  "merge_into out [] = out"
| "merge_into out ((k, v) # b) = merge_into (dict_set out k (merge_value (dict_get out k) v)) b"
| "merge_value (Some (JDict x)) (JDict y) = JDict (merge_into x y)"
| "merge_value None v = v"
| "merge_value (Some JNull) v = v"
| "merge_value (Some (JBool x)) v = v"
| "merge_value (Some (JInt x)) v = v"
| "merge_value (Some (JFloat x)) v = v"
| "merge_value (Some (JStr x)) v = v"
| "merge_value (Some (JList x)) v = v"
| "merge_value (Some (JDict x)) JNull = JNull"
| "merge_value (Some (JDict x)) (JBool y) = JBool y"
| "merge_value (Some (JDict x)) (JInt y) = JInt y"
| "merge_value (Some (JDict x)) (JFloat y) = JFloat y"
| "merge_value (Some (JDict x)) (JStr y) = JStr y"
| "merge_value (Some (JDict x)) (JList y) = JList y"
  by pat_completeness auto
termination
  by (relation "measure (\<lambda>a. case a of
                    Inl (out, b) \<Rightarrow> size_list (size_prod (\<lambda>_. 0) size) b
                  | Inr (x, v) \<Rightarrow> size v)") auto

definition merge :: "pydict \<Rightarrow> pydict \<Rightarrow> pydict" where
  "merge a b = merge_into a b"

definition normalize_event_section :: "json \<Rightarrow> pydict" where
  "normalize_event_section section =
     (case section of
        JList xs \<Rightarrow> [(''tasks'', JList xs)]
      | JDict d \<Rightarrow>
          (case dict_get d ''tasks'' of
             Some (JList ts) \<Rightarrow> filter (\<lambda>kv. fst kv \<noteq> ''tasks'') d @ [(''tasks'', JList ts)]
           | _ \<Rightarrow> [(''tasks'', JList [])])
      | _ \<Rightarrow> [(''tasks'', JList [])])"

definition nonblank_str :: "json option \<Rightarrow> string option" where
  "nonblank_str v = (case v of Some (JStr s) \<Rightarrow> if strip s \<noteq> [] then Some (strip s) else None
                     | _ \<Rightarrow> None)"

definition task_key :: "json \<Rightarrow> string" where
  "task_key entry =
     (case entry of
        JDict d \<Rightarrow>
          (case nonblank_str (dict_get d ''id'') of
             Some tid \<Rightarrow> tid
           | None \<Rightarrow> (case nonblank_str (dict_get d ''ref'') of Some ref \<Rightarrow> ref | None \<Rightarrow> []))
      | JStr s \<Rightarrow> strip s
      | _ \<Rightarrow> [])"

text \<open>The three loops of \<open>_merge_event_sections\<close> over the ordered dict \<open>ordered\<close>.\<close>

definition seed_step :: "json \<Rightarrow> pydict \<Rightarrow> pydict" where
  "seed_step ent ordered =
     (let k = task_key ent in if k = [] then ordered else dict_set ordered k ent)"

definition remove_step :: "json \<Rightarrow> pydict \<Rightarrow> pydict" where
  "remove_step rid ordered =
     (case rid of
        JStr r \<Rightarrow> if r \<in> set (map fst ordered) then dict_pop ordered r else ordered
      | _ \<Rightarrow> ordered)"

definition is_disabled :: "json \<Rightarrow> bool" where
  "is_disabled ent = (case ent of JDict d \<Rightarrow> dict_get d ''disabled'' = Some (JBool True) | _ \<Rightarrow> False)"

definition apply_step :: "json \<Rightarrow> pydict \<Rightarrow> pydict" where
  "apply_step ent ordered =
     (let k = task_key ent
      in if k = [] then ordered
         else if is_disabled ent then dict_pop ordered k
         else dict_set ordered k ent)"

definition section_tasks :: "pydict \<Rightarrow> json list" where
  "section_tasks s = (case dict_get s ''tasks'' of Some (JList ts) \<Rightarrow> ts | _ \<Rightarrow> [])"

definition merge_event_sections :: "json \<Rightarrow> json \<Rightarrow> pydict" where
  "merge_event_sections a b =
     (let sa = normalize_event_section a;
          sb = normalize_event_section b;
          out = filter (\<lambda>kv. fst kv \<noteq> ''tasks'') sa;
          ordered0 = fold seed_step (section_tasks sa) [];
          ordered1 = (case dict_get sb ''remove'' of
                        Some (JList removes) \<Rightarrow> fold remove_step removes ordered0
                      | _ \<Rightarrow> ordered0);
          ordered2 = fold apply_step (section_tasks sb) ordered1
      in dict_set out ''tasks'' (JList (map snd ordered2)))"

definition merge_configs_step :: "string \<times> json \<Rightarrow> pydict \<Rightarrow> pydict" where
  "merge_configs_step kv out =
     (let k = fst kv; v = snd kv
      in if k \<in> set EVENT_KEYS
         then dict_set out k
                (JDict (merge_event_sections
                          (case dict_get out k of Some s \<Rightarrow> s | None \<Rightarrow> JDict [(''tasks'', JList [])]) v))
         else dict_set out k (merge_value (dict_get out k) v))"

definition merge_configs :: "pydict \<Rightarrow> pydict \<Rightarrow> pydict" where
  "merge_configs a b = fold merge_configs_step b a"


text \<open>
  The task list of a section "deduplicated by task identity, original relative order
  preserved", written out from these words: entries without an identity are dropped; each
  identity appears once, at the place of its first entry, and what stands there is the
  last entry given under that identity.
\<close>

fun last_with_key :: "string \<Rightarrow> json \<Rightarrow> json list \<Rightarrow> json" where
  "last_with_key k e [] = e"
| "last_with_key k e (x # xs) = last_with_key k (if task_key x = k then x else e) xs"

function dedup_by_identity :: "json list \<Rightarrow> json list" where
  "dedup_by_identity [] = []"
| "dedup_by_identity (e # es) =
     (if task_key e = [] then dedup_by_identity es
      else last_with_key (task_key e) e es
             # dedup_by_identity (filter (\<lambda>x. task_key x \<noteq> task_key e) es))"
  by pat_completeness auto
termination
  by (relation "measure length") (auto simp: less_Suc_eq_le)

definition dedup_section :: "json \<Rightarrow> pydict" where
  "dedup_section s =
     (let n = normalize_event_section s
      in filter (\<lambda>kv. fst kv \<noteq> ''tasks'') n @ [(''tasks'', JList (dedup_by_identity (section_tasks n)))])"

definition dedup_config :: "pydict \<Rightarrow> pydict" where
  "dedup_config c =
     map (\<lambda>kv. if fst kv \<in> set EVENT_KEYS then (fst kv, JDict (dedup_section (snd kv))) else kv) c"

text \<open>
  A section is plain when none of its entries is flagged disabled and its \<open>remove\<close> list
  names none of its own entries; a config is plain when it is a well-formed dict and
  every event section in it is plain.
\<close>

definition section_plain :: "json \<Rightarrow> bool" where
  "section_plain s =
     (let n = normalize_event_section s; ts = section_tasks n
      in list_all (\<lambda>e. \<not> is_disabled e) ts
         \<and> (case dict_get n ''remove'' of
               Some (JList rs) \<Rightarrow> list_all (\<lambda>e. JStr (task_key e) \<notin> set rs) ts
             | _ \<Rightarrow> True))"

definition config_plain :: "pydict \<Rightarrow> bool" where
  "config_plain c =
     (wf_json (JDict c)
      \<and> list_all (\<lambda>kv. fst kv \<notin> set EVENT_KEYS \<or> section_plain (snd kv)) c)"


section \<open>Configuration loading (common/config.py)\<close>

text \<open>
  Paths are strings. \<open>path_suffix\<close> is \<open>Path.suffix\<close>, \<open>path_parent\<close> is \<open>Path.parent\<close>,
  \<open>path_join\<close> is the \<open>/\<close> operator.
\<close>

definition path_suffix :: "string \<Rightarrow> string" where
  "path_suffix p =
     (let name = path_name p;
          ext = rev (takeWhile (\<lambda>c. c \<noteq> CHR ''.'') (rev name));
          stem = take (length name - length ext - 1) name
      in if CHR ''.'' \<notin> set name \<or> ext = [] \<or> stem = [] then [] else CHR ''.'' # ext)"

definition is_absolute :: "string \<Rightarrow> bool" where
  "is_absolute p = (take 1 p = ''/'')"

fun join_with :: "string \<Rightarrow> string list \<Rightarrow> string" where
  "join_with sep [] = []"
| "join_with sep [x] = x"
| "join_with sep (x # y # ys) = x @ sep @ join_with sep (y # ys)"

definition path_parent :: "string \<Rightarrow> string" where
  "path_parent p =
     (let cs = butlast (filter (\<lambda>c. c \<noteq> [] \<and> c \<noteq> ''.'') (split_on (CHR ''/'') p))
      in if is_absolute p then CHR ''/'' # join_with ''/'' cs
         else if cs = [] then ''.'' else join_with ''/'' cs)"

definition path_join :: "string \<Rightarrow> string \<Rightarrow> string" where
  "path_join base p = (if is_absolute p then p else base @ ''/'' @ p)"

text \<open>
  A file that exists, by what the two parsers make of it: \<open>None\<close> when the parser (or the
  read) raises, the parsed document otherwise.
\<close>

datatype cfg_file = CfgFile (yaml_result: "json option") (json_result: "json option")

text \<open>
  What a load reads from outside: the environment variable \<open>CLAUDE_HOOKS_CONFIG\<close>, the
  working directory, the files that exist, the packaged examples by file name (\<open>None\<close>
  when opening or parsing one raises), \<open>Path.resolve\<close>, and the interpreter's recursion
  limit.
\<close>

record load_env =
  env_config :: "string option"
  cwd :: string
  files :: "string \<rightharpoonup> cfg_file"
  examples :: "string \<rightharpoonup> json"
  resolve :: "string \<Rightarrow> string"
  recursion_limit :: nat

datatype load_error = NoConfigFound | RecursionError

definition as_dict :: "json option \<Rightarrow> pydict option" where
  "as_dict v = (case v of Some (JDict d) \<Rightarrow> Some d | _ \<Rightarrow> None)"

definition try_load_yaml_text :: "load_env \<Rightarrow> string \<Rightarrow> pydict option" where
  "try_load_yaml_text env p = (case files env p of None \<Rightarrow> None | Some f \<Rightarrow> as_dict (yaml_result f))"

definition try_load_json_text :: "load_env \<Rightarrow> string \<Rightarrow> pydict option" where
  "try_load_json_text env p = (case files env p of None \<Rightarrow> None | Some f \<Rightarrow> as_dict (json_result f))"

definition candidate_paths :: "load_env \<Rightarrow> string list" where
  "candidate_paths env =
     (case env_config env of
        Some env_path \<Rightarrow>
          if env_path \<noteq> [] then [env_path]
          else map (path_join (cwd env))
                 [''hooks.yml'', ''hooks.yaml'', ''config/hooks.yml'', ''config/hooks.yaml'',
                  ''.claude/hooks/config/hooks.yml'', ''hooks.json'']
      | None \<Rightarrow>
          map (path_join (cwd env))
            [''hooks.yml'', ''hooks.yaml'', ''config/hooks.yml'', ''config/hooks.yaml'',
             ''.claude/hooks/config/hooks.yml'', ''hooks.json''])"

definition load_example :: "load_env \<Rightarrow> string \<Rightarrow> pydict option" where
  "load_example env name =
     (case as_dict (examples env (name @ ''.yml'')) of
        Some d \<Rightarrow> Some d
      | None \<Rightarrow> as_dict (examples env (name @ ''.yaml'')))"

definition load_one :: "load_env \<Rightarrow> string \<Rightarrow> string option \<Rightarrow> pydict option \<times> string option" where
  "load_one env source0 base_dir =
     (let source = strip source0
      in if take 8 source = ''example:'' then (load_example env (strip (drop 8 source)), None)
         else
           let p = (case base_dir of
                      Some bd \<Rightarrow> if \<not> is_absolute source then resolve env (path_join bd source)
                                 else source
                    | None \<Rightarrow> source)
           in if files env p \<noteq> None
              then if lower (path_suffix p) \<in> {''.yaml'', ''.yml''} then (try_load_yaml_text env p, Some p)
                   else if lower (path_suffix p) = ''.json'' then (try_load_json_text env p, Some p)
                   else (case try_load_yaml_text env p of
                           Some d \<Rightarrow> (Some d, Some p)
                         | None \<Rightarrow> (try_load_json_text env p, Some p))
              else (None, Some p))"

text \<open>
  \<open>_resolve_extends\<close> and its loop over the \<open>extends\<close> items. The first argument is the
  number of further nested calls the interpreter allows; when a loaded parent can no
  longer be entered, Python raises \<open>RecursionError\<close>. \<open>seen\<close> is the set that the calls
  share and extend.
\<close>

fun resolve_extends ::
    "nat \<Rightarrow> load_env \<Rightarrow> pydict \<Rightarrow> string option \<Rightarrow> string list \<Rightarrow> load_error + pydict \<times> string list"
  and resolve_items ::
    "nat \<Rightarrow> load_env \<Rightarrow> json list \<Rightarrow> string option \<Rightarrow> pydict \<Rightarrow> string list
       \<Rightarrow> load_error + pydict \<times> string list" where
  "resolve_extends n env cfg origin seen =
     (case dict_get cfg ''extends'' of
        Some (JList (i # items)) \<Rightarrow>
          (case resolve_items n env (i # items) (map_option path_parent origin) [] seen of
             Inl e \<Rightarrow> Inl e
           | Inr (merged, seen') \<Rightarrow>
               Inr (merge_configs merged (filter (\<lambda>kv. fst kv \<noteq> ''extends'') cfg), seen'))
      | _ \<Rightarrow> Inr (filter (\<lambda>kv. fst kv \<noteq> ''extends'') cfg, seen))"
| "resolve_items n env [] base_dir merged seen = Inr (merged, seen)"
| "resolve_items n env (raw # rest) base_dir merged seen =
     (case raw of
        JStr r \<Rightarrow>
          if strip r = [] then resolve_items n env rest base_dir merged seen
          else
            let token = strip r;
                key = (case base_dir of
                         Some bd \<Rightarrow> if take 8 token \<noteq> ''example:'' then resolve env (path_join bd token)
                                    else token
                       | None \<Rightarrow> token)
            in if key \<in> set seen then resolve_items n env rest base_dir merged seen
               else
                 (case load_one env token base_dir of
                    (Some data, child_origin) \<Rightarrow>
                      (case n of
                         0 \<Rightarrow> Inl RecursionError
                       | Suc m \<Rightarrow>
                           (case resolve_extends m env data child_origin (key # seen) of
                              Inl e \<Rightarrow> Inl e
                            | Inr (child_resolved, seen') \<Rightarrow>
                                resolve_items n env rest base_dir
                                  (merge_configs merged child_resolved) seen'))
                  | (None, child_origin) \<Rightarrow> resolve_items n env rest base_dir merged (key # seen))
      | _ \<Rightarrow> resolve_items n env rest base_dir merged seen)"

declare resolve_extends.simps [simp del]

text \<open>
  \<open>_load_config_cached\<close>. \<open>discover\<close> is the search for the first candidate path that
  exists; \<open>load_sources\<close> is the loop over the sources.
\<close>

definition discover :: "load_env \<Rightarrow> string list" where
  "discover env =
     (case filter (\<lambda>p. files env p \<noteq> None) (candidate_paths env) of
        [] \<Rightarrow> []
      | p # _ \<Rightarrow> [p])"

definition sources_of :: "load_env \<Rightarrow> string list option \<Rightarrow> string list" where
  "sources_of env key =
     (case key of
        Some (k # ks) \<Rightarrow> k # ks
      | _ \<Rightarrow> discover env)"

fun load_sources ::
  "load_env \<Rightarrow> string list \<Rightarrow> pydict \<Rightarrow> string list \<Rightarrow> load_error + pydict" where
  "load_sources env [] result seen = Inr result"
| "load_sources env (src # srcs) result seen =
     (case load_one env src None of
        (Some data, origin) \<Rightarrow>
          (case resolve_extends (recursion_limit env) env data origin seen of
             Inl e \<Rightarrow> Inl e
           | Inr (resolved, seen') \<Rightarrow> load_sources env srcs (merge_configs result resolved) seen')
      | (None, origin) \<Rightarrow> load_sources env srcs result seen)"

definition load_config_cached :: "load_env \<Rightarrow> string list option \<Rightarrow> load_error + pydict" where
  "load_config_cached env key =
     (if sources_of env key = [] then Inl NoConfigFound
      else load_sources env (sources_of env key) DEFAULTS [])"

datatype path_arg = PathNone | PathStr string | PathList "string list"

definition load_config :: "load_env \<Rightarrow> path_arg \<Rightarrow> load_error + pydict" where
  "load_config env path =
     (case path of
        PathNone \<Rightarrow> load_config_cached env None
      | PathStr s \<Rightarrow>
          load_config_cached env
            (Some (filter (\<lambda>p. p \<noteq> []) (map strip (split_on (CHR '','') s))))
      | PathList ps \<Rightarrow>
          (case filter (\<lambda>p. p \<noteq> []) (map strip ps) of
             [] \<Rightarrow> load_config_cached env None
           | parts \<Rightarrow> load_config_cached env (Some parts)))"


text \<open>
  A project directory \<open>/w\<close> holding the files \<open>fs\<close>, with no environment override and no
  packaged examples: the surroundings used in the worked examples below.
\<close>

definition project_env :: "(string \<rightharpoonup> cfg_file) \<Rightarrow> load_env" where
  "project_env fs =
     \<lparr> env_config = None, cwd = ''/w'', files = fs, examples = Map.empty,
       resolve = (\<lambda>p. p), recursion_limit = 1000 \<rparr>"


section \<open>Actions and task descriptors (common/types.py)\<close>

record Action =
  a_block :: bool
  a_reason :: "string option"
  a_end_turn :: bool
  a_add_context :: "string option"
  a_permission_decision :: "string option"
  a_permission_decision_reason :: "string option"
  a_user_message :: "string option"
  a_suppress_output :: "bool option"
  a_system_message :: "string option"
  a_exit2 :: "bool option"
  a_file_path :: "string option"
  a_task_id :: "string option"
  a_elapsed_seconds :: "real option"
  a_severity :: "string option"
  a_category :: "string option"

text \<open>\<open>Action()\<close> with every field at its default.\<close>

definition Action0 :: Action where
  "Action0 =
     \<lparr> a_block = False, a_reason = None, a_end_turn = False, a_add_context = None,
       a_permission_decision = None, a_permission_decision_reason = None,
       a_user_message = None, a_suppress_output = None, a_system_message = None,
       a_exit2 = None, a_file_path = None, a_task_id = None, a_elapsed_seconds = None,
       a_severity = None, a_category = None \<rparr>"

text \<open>
  The payload as \<open>main\<close> hands it to the runner: the hook input object, and the three
  entries \<open>main\<close> adds to it (\<open>files\<close>, \<open>config\<close>, \<open>timeout_seconds\<close>). A task receives
  a copy with its own \<open>task\<close> entry (\<open>id\<close> and \<open>params\<close>).
\<close>

record payload =
  p_input :: pydict
  p_files :: "string list"
  p_config :: pydict
  p_timeout_seconds :: int

record task_payload = payload +
  tp_task_id :: string
  tp_task_params :: "pydict option"

text \<open>
  What a task body does when called. It returns one value or a list of values, or it
  raises an \<open>Exception\<close> whose \<open>str\<close> is given. A returned value is an \<open>Action\<close>, or
  something else; the runner's first touch of something else (\<open>a.task_id\<close>) raises an
  \<open>AttributeError\<close>, whose text the value carries here.
\<close>

datatype ret_item = IsAction Action | NotAction string

datatype task_return = RetOne ret_item | RetList "ret_item list"

datatype body_result = Returns task_return | Raises string

record TaskDescriptor =
  td_id :: string
  td_fn :: "task_payload \<Rightarrow> body_result"
  td_timeout_seconds :: "int option"
  td_params :: "pydict option"

definition flatten_actions :: "task_return \<Rightarrow> ret_item list" where
  "flatten_actions v = (case v of RetList xs \<Rightarrow> xs | RetOne x \<Rightarrow> [x])"


section \<open>Python's int()\<close>

text \<open>
  Errors that end the process. \<open>int(x)\<close> on a configuration value: numbers convert, a
  string converts when it is an optionally signed run of decimal digits (single
  underscores between digits allowed) with blanks around it, anything else raises.
\<close>

datatype crash = ValueError | TypeError | AttributeError string

definition is_digit :: "char \<Rightarrow> bool" where
  "is_digit c = (48 \<le> (of_char c :: nat) \<and> (of_char c :: nat) \<le> 57)"

definition digits_value :: "string \<Rightarrow> int" where
  "digits_value ds = foldl (\<lambda>acc c. 10 * acc + (int (of_char c) - 48)) 0 ds"

definition parse_digits :: "string \<Rightarrow> int option" where
  "parse_digits s =
     (let groups = split_on (CHR ''_'') s
      in if list_all (\<lambda>g. g \<noteq> [] \<and> list_all is_digit g) groups
         then Some (digits_value (concat groups)) else None)"

definition parse_int :: "string \<Rightarrow> int option" where
  "parse_int s0 =
     (let s = strip s0
      in case s of
           [] \<Rightarrow> None
         | c # cs \<Rightarrow>
             if c = CHR ''-'' then map_option uminus (parse_digits cs)
             else if c = CHR ''+'' then parse_digits cs
             else parse_digits s)"

definition py_int :: "json \<Rightarrow> crash + int" where
  "py_int v =
     (case v of
        JInt n \<Rightarrow> Inr n
      | JBool b \<Rightarrow> Inr (if b then 1 else 0)
      | JFloat r \<Rightarrow> Inr (if r < 0 then - \<lfloor>- r\<rfloor> else \<lfloor>r\<rfloor>)
      | JStr s \<Rightarrow> (case parse_int s of Some n \<Rightarrow> Inr n | None \<Rightarrow> Inl ValueError)
      | _ \<Rightarrow> Inl TypeError)"


section \<open>TaskRunner (common/runner.py)\<close>

text \<open>
  How the wait on a task's future ends. \<open>Done elapsed\<close>: the call finished before the
  wait expired, having taken \<open>elapsed\<close> seconds. \<open>Expired err\<close>: \<open>fut.result\<close> raised
  (a \<open>TimeoutError\<close>, or another executor-level exception) with text \<open>err\<close>. The waits of
  one batch are given by position and by the timeout waited for.
\<close>

datatype wait = Done real | Expired string

type_synonym sched = "nat \<Rightarrow> real \<Rightarrow> wait"

definition warn_action :: "string \<Rightarrow> string \<Rightarrow> real option \<Rightarrow> Action" where
  "warn_action err task_id elapsed =
     Action0\<lparr> a_block := False, a_reason := Some err, a_task_id := Some task_id,
              a_elapsed_seconds := elapsed \<rparr>"

definition stamp :: "string \<Rightarrow> real \<Rightarrow> Action \<Rightarrow> Action" where
  "stamp task_id elapsed a =
     a\<lparr> a_task_id := (case a_task_id a of None \<Rightarrow> Some task_id | Some t \<Rightarrow> Some t),
        a_elapsed_seconds := (case a_elapsed_seconds a of None \<Rightarrow> Some elapsed | Some e \<Rightarrow> Some e) \<rparr>"

text \<open>The loop over the returned values: it stops at the first one that is no Action.\<close>

fun stamp_all :: "string \<Rightarrow> real \<Rightarrow> ret_item list \<Rightarrow> string + Action list" where
  "stamp_all task_id elapsed [] = Inr []"
| "stamp_all task_id elapsed (NotAction err # rest) = Inl err"
| "stamp_all task_id elapsed (IsAction a # rest) =
     (case stamp_all task_id elapsed rest of
        Inl err \<Rightarrow> Inl err
      | Inr as \<Rightarrow> Inr (stamp task_id elapsed a # as))"

definition safe_task_call :: "TaskDescriptor \<Rightarrow> payload \<Rightarrow> real \<Rightarrow> Action list" where
  "safe_task_call desc pl elapsed =
     (case td_fn desc (payload.extend pl
                         \<lparr> tp_task_id = td_id desc, tp_task_params = td_params desc \<rparr>) of
        Raises err \<Rightarrow> [warn_action err (td_id desc) (Some elapsed)]
      | Returns out \<Rightarrow>
          (case stamp_all (td_id desc) elapsed (flatten_actions out) of
             Inl err \<Rightarrow> [warn_action err (td_id desc) (Some elapsed)]
           | Inr results \<Rightarrow> results))"

definition wait_timeout :: "TaskDescriptor \<Rightarrow> payload \<Rightarrow> real" where
  "wait_timeout desc pl =
     (case td_timeout_seconds desc of
        Some t \<Rightarrow> if real_of_int t > 0 then real_of_int t else real_of_int (p_timeout_seconds pl)
      | None \<Rightarrow> real_of_int (p_timeout_seconds pl))"

text \<open>What the task at position \<open>i\<close> of the batch adds to \<open>results\<close>.\<close>

definition task_outcomes :: "payload \<Rightarrow> sched \<Rightarrow> nat \<times> TaskDescriptor \<Rightarrow> Action list" where
  "task_outcomes pl sch it =
     (case sch (fst it) (wait_timeout (snd it) pl) of
        Done elapsed \<Rightarrow> safe_task_call (snd it) pl elapsed
      | Expired err \<Rightarrow> [warn_action err (td_id (snd it)) None])"

definition config_concurrency :: "payload \<Rightarrow> crash + int" where
  "config_concurrency pl =
     (case dict_get (p_config pl) ''concurrency'' of None \<Rightarrow> Inr 6 | Some v \<Rightarrow> py_int v)"

text \<open>
  The number of worker threads. It bounds how many calls run at once, which shows in the
  waits; the outcomes are collected in submission order whatever it is. A \<open>concurrency\<close>
  setting that \<open>int()\<close> rejects ends a batch that is not empty before any task runs.
\<close>

definition pool_size :: "int option \<Rightarrow> int \<Rightarrow> nat \<Rightarrow> int" where
  "pool_size max_workers cfg_conc n =
     (case max_workers of
        Some m \<Rightarrow> if m > 0 then m else max 1 (min cfg_conc (int n))
      | None \<Rightarrow> max 1 (min cfg_conc (int n)))"

definition run_parallel ::
  "TaskDescriptor list \<Rightarrow> payload \<Rightarrow> int option \<Rightarrow> sched \<Rightarrow> crash + Action list" where
  "run_parallel tasks pl max_workers sch =
     (if tasks = [] then Inr []
      else case config_concurrency pl of
             Inl e \<Rightarrow> Inl e
           | Inr cfg_conc \<Rightarrow> Inr (concat (map (task_outcomes pl sch) (enumerate 0 tasks))))"







section \<open>BackgroundQueue (common/task_queue.py)\<close>

text \<open>
  One row of table \<open>tasks\<close>, which is also the dataclass \<open>BackgroundTask\<close>. The \<open>command\<close>
  and \<open>metadata\<close> columns hold JSON text; they appear here as the values
  \<open>_row_to_task\<close> decodes. \<open>task_id\<close> is the primary key.
\<close>

record BackgroundTask =
  bt_task_id :: string
  bt_task_type :: string
  bt_status :: string
  bt_command :: "json option"
  bt_metadata :: "pydict option"
  bt_source :: string
  bt_session_id :: string
  bt_created_at :: real
  bt_started_at :: "real option"
  bt_completed_at :: "real option"
  bt_timeout :: int
  bt_exit_code :: "int option"
  bt_stdout :: "string option"
  bt_stderr :: "string option"
  bt_error :: "string option"

type_synonym tq_table = "BackgroundTask list"

text \<open>
  \<open>ORDER BY col ASC\<close> and \<open>ORDER BY col DESC\<close> on a nullable column: SQLite puts the
  NULLs first ascending and last descending; rows with equal keys keep their insertion
  order here.
\<close>

definition order_asc :: "('r \<Rightarrow> real option) \<Rightarrow> 'r list \<Rightarrow> 'r list" where
  "order_asc col rows =
     filter (\<lambda>r. col r = None) rows
     @ sort_key (\<lambda>r. the (col r)) (filter (\<lambda>r. col r \<noteq> None) rows)"

definition order_desc :: "('r \<Rightarrow> real option) \<Rightarrow> 'r list \<Rightarrow> 'r list" where
  "order_desc col rows =
     sort_key (\<lambda>r. - the (col r)) (filter (\<lambda>r. col r \<noteq> None) rows)
     @ filter (\<lambda>r. col r = None) rows"

definition get_pending_tasks :: "tq_table \<Rightarrow> nat \<Rightarrow> BackgroundTask list" where
  "get_pending_tasks t limit =
     take limit (sort_key bt_created_at (filter (\<lambda>r. bt_status r = ''pending'') t))"

definition get_running_tasks :: "tq_table \<Rightarrow> BackgroundTask list" where
  "get_running_tasks t = order_asc bt_started_at (filter (\<lambda>r. bt_status r = ''running'') t)"

definition get_completed_tasks :: "tq_table \<Rightarrow> nat \<Rightarrow> BackgroundTask list" where
  "get_completed_tasks t limit =
     take limit (order_desc bt_completed_at
                   (filter (\<lambda>r. bt_status r = ''completed'' \<or> bt_status r = ''failed'') t))"

text \<open>
  The keyword arguments of \<open>update_task_status\<close>: a column is written only when its
  argument is not \<open>None\<close>.
\<close>

record task_update =
  u_status :: "string option"
  u_started_at :: "real option"
  u_completed_at :: "real option"
  u_exit_code :: "int option"
  u_stdout :: "string option"
  u_stderr :: "string option"
  u_error :: "string option"
  u_metadata :: "pydict option"

definition no_update :: task_update where
  "no_update =
     \<lparr> u_status = None, u_started_at = None, u_completed_at = None, u_exit_code = None,
       u_stdout = None, u_stderr = None, u_error = None, u_metadata = None \<rparr>"

definition apply_update :: "task_update \<Rightarrow> BackgroundTask \<Rightarrow> BackgroundTask" where
  "apply_update u r =
     r\<lparr> bt_status := (case u_status u of None \<Rightarrow> bt_status r | Some v \<Rightarrow> v),
        bt_started_at := (case u_started_at u of None \<Rightarrow> bt_started_at r | Some v \<Rightarrow> Some v),
        bt_completed_at := (case u_completed_at u of None \<Rightarrow> bt_completed_at r | Some v \<Rightarrow> Some v),
        bt_exit_code := (case u_exit_code u of None \<Rightarrow> bt_exit_code r | Some v \<Rightarrow> Some v),
        bt_stdout := (case u_stdout u of None \<Rightarrow> bt_stdout r | Some v \<Rightarrow> Some v),
        bt_stderr := (case u_stderr u of None \<Rightarrow> bt_stderr r | Some v \<Rightarrow> Some v),
        bt_error := (case u_error u of None \<Rightarrow> bt_error r | Some v \<Rightarrow> Some v),
        bt_metadata := (case u_metadata u of None \<Rightarrow> bt_metadata r | Some v \<Rightarrow> Some v) \<rparr>"

definition update_task_status :: "string \<Rightarrow> task_update \<Rightarrow> tq_table \<Rightarrow> tq_table" where
  "update_task_status task_id u t = map (\<lambda>r. if bt_task_id r = task_id then apply_update u r else r) t"

definition mark_task_consumed :: "string \<Rightarrow> tq_table \<Rightarrow> tq_table" where
  "mark_task_consumed task_id t = filter (\<lambda>r. bt_task_id r \<noteq> task_id) t"


section \<open>Background task runner (common/task_runner.py)\<close>

text \<open>
  \<open>check_running_tasks\<close> reads two things from the operating system: whether
  \<open>os.kill(pid, 0)\<close> returns (\<open>alive\<close>) or raises \<open>OSError\<close>, and the text of a file
  (\<open>None\<close> when reading it raises). A recorded pid that is no integer makes \<open>os.kill\<close>
  raise \<open>TypeError\<close>, which the code treats like a process that is gone.
\<close>

definition read_output :: "(string \<rightharpoonup> string) \<Rightarrow> json option \<Rightarrow> string" where
  "read_output fs file =
     (case file of
        Some (JStr p) \<Rightarrow> if p = [] then [] else (case fs p of Some text \<Rightarrow> text | None \<Rightarrow> [])
      | _ \<Rightarrow> [])"

definition truthy :: "json \<Rightarrow> bool" where
  "truthy v =
     (case v of
        JNull \<Rightarrow> False
      | JBool b \<Rightarrow> b
      | JInt n \<Rightarrow> n \<noteq> 0
      | JFloat r \<Rightarrow> r \<noteq> 0
      | JStr s \<Rightarrow> s \<noteq> []
      | JList xs \<Rightarrow> xs \<noteq> []
      | JDict d \<Rightarrow> d \<noteq> [])"

definition output_file :: "BackgroundTask \<Rightarrow> string \<Rightarrow> json option" where
  "output_file task key =
     (case bt_metadata task of
        None \<Rightarrow> None
      | Some md \<Rightarrow> (case dict_get md key of Some v \<Rightarrow> if truthy v then Some v else None | None \<Rightarrow> None))"

definition timed_out :: "real \<Rightarrow> BackgroundTask \<Rightarrow> bool" where
  "timed_out current_time task =
     (case bt_started_at task of
        None \<Rightarrow> False
      | Some s \<Rightarrow> s \<noteq> 0 \<and> current_time - s > real_of_int (bt_timeout task))"

text \<open>The pid probe: \<open>True\<close> when \<open>os.kill(pid, 0)\<close> raises \<open>OSError\<close> or \<open>TypeError\<close>.\<close>

definition process_gone :: "(int \<Rightarrow> bool) \<Rightarrow> json \<Rightarrow> bool" where
  "process_gone alive pid =
     (case pid of
        JInt n \<Rightarrow> \<not> alive n
      | JBool b \<Rightarrow> \<not> alive (if b then 1 else 0)
      | _ \<Rightarrow> True)"

fun show_nat :: "nat \<Rightarrow> string" where
  "show_nat n = (if n < 10 then [char_of (48 + n)] else show_nat (n div 10) @ [char_of (48 + n mod 10)])"

definition show_int :: "int \<Rightarrow> string" where
  "show_int i = (if i < 0 then CHR ''-'' # show_nat (nat (- i)) else show_nat (nat i))"

text \<open>One pass of the loop body of \<open>check_running_tasks\<close>, for the snapshot row \<open>task\<close>.\<close>

definition check_one ::
  "real \<Rightarrow> (int \<Rightarrow> bool) \<Rightarrow> (string \<rightharpoonup> string) \<Rightarrow> BackgroundTask
     \<Rightarrow> string list \<times> tq_table \<Rightarrow> string list \<times> tq_table" where
  "check_one current_time alive fs task st =
     (if timed_out current_time task
      then (fst st @ [bt_task_id task],
            update_task_status (bt_task_id task)
              (no_update\<lparr> u_status := Some ''failed'', u_completed_at := Some current_time,
                          u_error := Some (''Task timed out after '' @ show_int (bt_timeout task) @ ''s''),
                          u_stdout := Some (case bt_metadata task of
                                              None \<Rightarrow> []
                                            | Some md \<Rightarrow> if md = [] then []
                                                         else read_output fs (output_file task ''stdout_file'')),
                          u_stderr := Some (case bt_metadata task of
                                              None \<Rightarrow> []
                                            | Some md \<Rightarrow> if md = [] then []
                                                         else read_output fs (output_file task ''stderr_file'')) \<rparr>)
              (snd st))
      else
        (case bt_metadata task of
           None \<Rightarrow> st
         | Some md \<Rightarrow>
             (case dict_get md ''pid'' of
                None \<Rightarrow> st
              | Some pid \<Rightarrow>
                  if process_gone alive pid
                  then
                    let stdout_content = read_output fs (output_file task ''stdout_file'');
                        stderr_content = read_output fs (output_file task ''stderr_file'');
                        exit_code = (if stderr_content = [] then 0 else 1 :: int)
                    in (fst st @ [bt_task_id task],
                        update_task_status (bt_task_id task)
                          (no_update\<lparr> u_status := Some (if exit_code = 0 then ''completed'' else ''failed''),
                                      u_completed_at := Some current_time,
                                      u_exit_code := Some exit_code,
                                      u_stdout := Some stdout_content,
                                      u_stderr := Some stderr_content \<rparr>)
                          (snd st))
                  else st)))"

definition check_running_tasks ::
  "real \<Rightarrow> (int \<Rightarrow> bool) \<Rightarrow> (string \<rightharpoonup> string) \<Rightarrow> tq_table \<Rightarrow> string list \<times> tq_table" where
  "check_running_tasks current_time alive fs t =
     fold (check_one current_time alive fs) (get_running_tasks t) ([], t)"


text \<open>\<open>SELECT * FROM tasks WHERE task_id = ?\<close>.\<close>

definition select_task :: "tq_table \<Rightarrow> string \<Rightarrow> BackgroundTask option" where
  "select_task t task_id = find (\<lambda>r. bt_task_id r = task_id) t"

text \<open>
  The dict that \<open>_parse_task_output\<close> returns. \<open>loads\<close> stands for \<open>json.loads\<close>: \<open>None\<close>
  when it raises \<open>JSONDecodeError\<close>. Calling \<open>.get\<close> on a JSON value that is no object
  raises \<open>AttributeError\<close>, which the \<open>except\<close> clause of the function does not list.
\<close>

record feedback_data =
  fd_content :: json
  fd_severity :: json
  fd_category :: json
  fd_task_id :: string

definition type_name :: "json \<Rightarrow> string" where
  "type_name v =
     (case v of
        JNull \<Rightarrow> ''NoneType'' | JBool _ \<Rightarrow> ''bool'' | JInt _ \<Rightarrow> ''int'' | JFloat _ \<Rightarrow> ''float''
      | JStr _ \<Rightarrow> ''str'' | JList _ \<Rightarrow> ''list'' | JDict _ \<Rightarrow> ''dict'')"

definition get_or :: "pydict \<Rightarrow> string \<Rightarrow> json \<Rightarrow> json" where
  "get_or d k dflt = (case dict_get d k of Some v \<Rightarrow> v | None \<Rightarrow> dflt)"

definition structured_feedback ::
  "(string \<Rightarrow> json option) \<Rightarrow> BackgroundTask \<Rightarrow> crash + feedback_data option" where
  "structured_feedback loads task =
     (case bt_stdout task of
        None \<Rightarrow> Inr None
      | Some out \<Rightarrow>
          if out = [] then Inr None
          else
            (case loads out of
               Some (JDict data) \<Rightarrow>
                 (case dict_get data ''feedback'' of
                    Some (JList (first # _)) \<Rightarrow>
                      (case first of
                         JDict f \<Rightarrow>
                           Inr (Some \<lparr> fd_content = get_or f ''content'' (JStr []),
                                       fd_severity = get_or f ''severity'' (JStr ''info''),
                                       fd_category = get_or f ''category'' (JStr ''background-task''),
                                       fd_task_id = bt_source task \<rparr>)
                       | _ \<Rightarrow> Inl (AttributeError
                                   (CHR 0x27 # type_name first @ [CHR 0x27] @ '' object has no attribute ''
                                    @ [CHR 0x27] @ ''get'' @ [CHR 0x27])))
                  | _ \<Rightarrow> Inr None)
             | _ \<Rightarrow> Inr None))"

definition nonempty :: "string option \<Rightarrow> string option" where
  "nonempty s = (case s of Some x \<Rightarrow> if x = [] then None else Some x | None \<Rightarrow> None)"

definition raw_feedback :: "BackgroundTask \<Rightarrow> feedback_data option" where
  "raw_feedback task =
     (if bt_exit_code task = Some 0 \<and> nonempty (bt_stdout task) \<noteq> None
      then Some \<lparr> fd_content = JStr (''Background task completed:'' @ [CHR 0x0A]
                                       @ take 500 (the (bt_stdout task))),
                  fd_severity = JStr ''info'', fd_category = JStr ''background-task'',
                  fd_task_id = bt_source task \<rparr>
      else if bt_exit_code task \<noteq> Some 0
      then Some \<lparr> fd_content =
                    JStr (''Background task failed: ''
                          @ take 500 (case nonempty (bt_error task) of
                                        Some e \<Rightarrow> e
                                      | None \<Rightarrow> (case nonempty (bt_stderr task) of
                                                   Some e \<Rightarrow> e
                                                 | None \<Rightarrow> ''Unknown error''))),
                  fd_severity = JStr ''warn'', fd_category = JStr ''background-task'',
                  fd_task_id = bt_source task \<rparr>
      else None)"

definition parse_task_output ::
  "(string \<Rightarrow> json option) \<Rightarrow> BackgroundTask \<Rightarrow> crash + feedback_data option" where
  "parse_task_output loads task =
     (case structured_feedback loads task of
        Inl e \<Rightarrow> Inl e
      | Inr (Some fb) \<Rightarrow> Inr (Some fb)
      | Inr None \<Rightarrow> Inr (raw_feedback task))"

text \<open>
  The loop of \<open>process_completed_tasks\<close> over the fetched rows. An exception leaves the
  table as the loop had it at that point.
\<close>

fun harvest ::
  "(string \<Rightarrow> json option) \<Rightarrow> BackgroundTask list \<Rightarrow> feedback_data list \<Rightarrow> tq_table
     \<Rightarrow> (crash + feedback_data list) \<times> tq_table" where
  "harvest loads [] items t = (Inr items, t)"
| "harvest loads (task # rest) items t =
     (case parse_task_output loads task of
        Inl e \<Rightarrow> (Inl e, t)
      | Inr fb \<Rightarrow>
          harvest loads rest (items @ (case fb of Some f \<Rightarrow> [f] | None \<Rightarrow> []))
            (mark_task_consumed (bt_task_id task) t))"

definition process_completed_tasks ::
  "(string \<Rightarrow> json option) \<Rightarrow> tq_table \<Rightarrow> (crash + feedback_data list) \<times> tq_table" where
  "process_completed_tasks loads t = harvest loads (get_completed_tasks t 10) [] t"

text \<open>A row as \<open>queue_task\<close> inserts it, for the worked examples.\<close>

definition queued_task :: "string \<Rightarrow> BackgroundTask" where
  "queued_task task_id =
     \<lparr> bt_task_id = task_id, bt_task_type = ''external'', bt_status = ''pending'',
       bt_command = Some (JList [JStr ''make'', JStr ''check'']), bt_metadata = Some [],
       bt_source = ''cli'', bt_session_id = ''s1'', bt_created_at = 100,
       bt_started_at = None, bt_completed_at = None, bt_timeout = 120,
       bt_exit_code = None, bt_stdout = None, bt_stderr = None, bt_error = None \<rparr>"


text \<open>
  The row that the poll leaves for a task whose process is gone: the captured output
  read back, and the status and exit code decided by whether the captured stderr is empty.
\<close>

definition polled_row :: "real \<Rightarrow> (string \<rightharpoonup> string) \<Rightarrow> BackgroundTask \<Rightarrow> BackgroundTask" where
  "polled_row now fs task =
     task\<lparr> bt_status := (if read_output fs (output_file task ''stderr_file'') = []
                          then ''completed'' else ''failed''),
           bt_completed_at := Some now,
           bt_exit_code := Some (if read_output fs (output_file task ''stderr_file'') = [] then 0 else 1),
           bt_stdout := Some (read_output fs (output_file task ''stdout_file'')),
           bt_stderr := Some (read_output fs (output_file task ''stderr_file'')) \<rparr>"

text \<open>A row as \<open>spawn_tasks\<close> leaves it, for the worked examples.\<close>

definition spawned_task :: "string \<Rightarrow> int \<Rightarrow> real \<Rightarrow> BackgroundTask" where
  "spawned_task task_id pid started =
     (queued_task task_id)
       \<lparr> bt_status := ''running'', bt_started_at := Some started,
         bt_metadata := Some [(''pid'', JInt pid),
                              (''stdout_file'', JStr (''/o/'' @ task_id @ ''.stdout'')),
                              (''stderr_file'', JStr (''/o/'' @ task_id @ ''.stderr''))] \<rparr>"


section \<open>Changed files (common/filematch.py)\<close>

definition nonempty_strs :: "json option \<Rightarrow> string list" where
  "nonempty_strs v =
     (case v of
        Some (JList xs) \<Rightarrow> concat (map (\<lambda>x. case x of JStr s \<Rightarrow> if s = [] then [] else [s] | _ \<Rightarrow> []) xs)
      | _ \<Rightarrow> [])"

text \<open>De-duplication that keeps the first occurrence and the order.\<close>

definition uniq :: "string list \<Rightarrow> string list" where
  "uniq ps = foldl (\<lambda>acc p. if p \<in> set acc then acc else acc @ [p]) [] ps"

definition edit_path :: "json \<Rightarrow> string list" where
  "edit_path e =
     (case e of
        JDict d \<Rightarrow>
          (case (case dict_get d ''path'' of
                   Some v \<Rightarrow> if truthy v then Some v else dict_get d ''file_path''
                 | None \<Rightarrow> dict_get d ''file_path'') of
             Some (JStr p) \<Rightarrow> if p = [] then [] else [p]
           | _ \<Rightarrow> [])
      | _ \<Rightarrow> [])"

definition collect_changed_files :: "pydict \<Rightarrow> string list" where
  "collect_changed_files tool_input =
     uniq ((case dict_get tool_input ''file_path'' of
              Some (JStr v) \<Rightarrow> if v = [] then [] else [v]
            | _ \<Rightarrow> [])
           @ nonempty_strs (dict_get tool_input ''file_paths'')
           @ nonempty_strs (dict_get tool_input ''files'')
           @ (case dict_get tool_input ''edits'' of
                Some (JList es) \<Rightarrow> concat (map edit_path es)
              | _ \<Rightarrow> []))"

definition pull :: "json option \<Rightarrow> string list" where
  "pull v =
     (case v of
        Some (JDict d) \<Rightarrow>
          (let n1 = (case (dict_get d ''filePath'', dict_get d ''file_path'') of
                       (Some fp, None) \<Rightarrow> dict_set d ''file_path'' fp
                     | _ \<Rightarrow> d);
               n2 = (case (dict_get n1 ''filePaths'', dict_get n1 ''file_paths'') of
                       (Some fps, None) \<Rightarrow> dict_set n1 ''file_paths'' fps
                     | _ \<Rightarrow> n1)
           in collect_changed_files n2)
      | _ \<Rightarrow> [])"

definition collect_changed_files_from_payload :: "pydict \<Rightarrow> string list" where
  "collect_changed_files_from_payload pl =
     uniq (filter (\<lambda>p. p \<noteq> []) (pull (dict_get pl ''tool_input'') @ pull (dict_get pl ''tool_response'')))"


section \<open>Task selection (common/selectors.py)\<close>

text \<open>
  \<open>str(v)\<close> on a configuration or payload value: a string is itself; for any other value
  the text is taken from \<open>str_of\<close>. \<open>resolver\<close> stands for \<open>_resolve_callable_from_ref\<close>,
  which imports modules: the resolved id and callable, or the text of the exception.
\<close>

type_synonym task_fn = "task_payload \<Rightarrow> body_result"
type_synonym resolver = "string \<Rightarrow> string + string \<times> task_fn"

definition py_str :: "(json \<Rightarrow> string) \<Rightarrow> json \<Rightarrow> string" where
  "py_str str_of v = (case v of JStr s \<Rightarrow> s | _ \<Rightarrow> str_of v)"

definition wrap_missing_task :: "string \<Rightarrow> string \<Rightarrow> task_fn" where
  "wrap_missing_task ref error_text =
     (\<lambda>ctx. Returns (RetOne (IsAction
        (Action0\<lparr> a_block := False,
                  a_reason := Some (''Task not available: '' @ ref @ '' ('' @ error_text @ '')''),
                  a_task_id := Some ref \<rparr>))))"

definition first_truthy :: "json option list \<Rightarrow> json option" where
  "first_truthy vs =
     (case filter (\<lambda>v. case v of Some x \<Rightarrow> truthy x | None \<Rightarrow> False) vs of
        v # _ \<Rightarrow> v
      | [] \<Rightarrow> (case vs of [] \<Rightarrow> None | _ \<Rightarrow> last vs))"

definition parse_task_entry :: "resolver \<Rightarrow> json \<Rightarrow> TaskDescriptor option" where
  "parse_task_entry resolver entry =
     (let ref = (case entry of
                   JStr s \<Rightarrow> Some s
                 | JDict d \<Rightarrow> (case dict_get d ''ref'' of Some (JStr s) \<Rightarrow> Some s | _ \<Rightarrow> None)
                 | _ \<Rightarrow> None);
          timeout = (case entry of
                       JDict d \<Rightarrow>
                         (case dict_get d ''timeout'' of
                            Some (JInt n) \<Rightarrow> if n > 0 then Some n else None
                          | Some (JBool b) \<Rightarrow> if b then Some 1 else None
                          | _ \<Rightarrow> None)
                     | _ \<Rightarrow> None);
          friendly_id = (case entry of
                           JDict d \<Rightarrow>
                             (case dict_get d ''id'' of
                                Some (JStr s) \<Rightarrow> if strip s \<noteq> [] then Some s else None
                              | _ \<Rightarrow> None)
                         | _ \<Rightarrow> None);
          params = (case entry of
                      JDict d \<Rightarrow>
                        (case first_truthy [dict_get d ''params'', dict_get d ''args'', dict_get d ''config''] of
                           Some (JDict p) \<Rightarrow> Some p
                         | _ \<Rightarrow> None)
                    | _ \<Rightarrow> None)
      in case entry of
           JStr _ \<Rightarrow>
             (case ref of
                Some r \<Rightarrow>
                  if r = [] then None
                  else (case resolver r of
                          Inr (resolved_id, fn) \<Rightarrow>
                            Some \<lparr> td_id = resolved_id, td_fn = fn, td_timeout_seconds = None,
                                   td_params = None \<rparr>
                        | Inl err \<Rightarrow>
                            Some \<lparr> td_id = r, td_fn = wrap_missing_task r err,
                                   td_timeout_seconds = None, td_params = None \<rparr>)
              | None \<Rightarrow> None)
         | JDict _ \<Rightarrow>
             (case ref of
                Some r \<Rightarrow>
                  if r = [] then None
                  else (case resolver r of
                          Inr (resolved_id, fn) \<Rightarrow>
                            Some \<lparr> td_id = (case friendly_id of Some f \<Rightarrow> f | None \<Rightarrow> resolved_id),
                                   td_fn = fn, td_timeout_seconds = timeout, td_params = params \<rparr>
                        | Inl err \<Rightarrow>
                            Some \<lparr> td_id = (case friendly_id of Some f \<Rightarrow> f | None \<Rightarrow> r),
                                   td_fn = wrap_missing_task r err,
                                   td_timeout_seconds = timeout, td_params = None \<rparr>)
              | None \<Rightarrow> None)
         | _ \<Rightarrow> None)"

definition dedupe_descriptors :: "TaskDescriptor list \<Rightarrow> TaskDescriptor list" where
  "dedupe_descriptors items =
     foldl (\<lambda>out r. if td_id r \<in> set (map td_id out) then out else out @ [r]) [] items"

definition entries_for_section :: "json option \<Rightarrow> json list" where
  "entries_for_section section =
     (case section of
        Some (JDict d) \<Rightarrow> (case dict_get d ''tasks'' of Some (JList ts) \<Rightarrow> ts | _ \<Rightarrow> [])
      | Some (JList ts) \<Rightarrow> ts
      | _ \<Rightarrow> [])"

definition file_ext :: "string \<Rightarrow> string" where
  "file_ext p =
     (if CHR ''.'' \<in> set p then rev (takeWhile (\<lambda>c. c \<noteq> CHR ''.'') (rev (lower p))) else [])"

text \<open>Whether the \<open>tools\<close> and \<open>file_types\<close> filters of a dict entry let it through.\<close>

definition passes_filters :: "(json \<Rightarrow> string) \<Rightarrow> pydict \<Rightarrow> string \<Rightarrow> string list \<Rightarrow> bool" where
  "passes_filters str_of task_entry tool_name changed =
     ((case dict_get task_entry ''tools'' of
         Some (JList (t # ts)) \<Rightarrow>
           tool_name \<noteq> [] \<and> lower tool_name \<in> set (map (\<lambda>x. lower (py_str str_of x)) (t # ts))
       | _ \<Rightarrow> True)
      \<and> (case dict_get task_entry ''file_types'' of
            Some (JList (f # fs)) \<Rightarrow>
              changed \<noteq> []
              \<and> list_ex (\<lambda>fp. file_ext fp
                                 \<in> set (map (\<lambda>x. dropWhile (\<lambda>c. c = CHR ''.'') (lower (py_str str_of x)))
                                          (f # fs))) changed
          | _ \<Rightarrow> True))"

definition select_tasks ::
  "resolver \<Rightarrow> (json \<Rightarrow> string) \<Rightarrow> string \<Rightarrow> pydict \<Rightarrow> string \<Rightarrow> string list \<Rightarrow> TaskDescriptor list" where
  "select_tasks resolver str_of event cfg tool_name changed =
     dedupe_descriptors
       (concat (map (\<lambda>task_entry.
                  case task_entry of
                    JDict d \<Rightarrow>
                      if passes_filters str_of d tool_name changed
                      then (case parse_task_entry resolver task_entry of Some r \<Rightarrow> [r] | None \<Rightarrow> [])
                      else []
                  | _ \<Rightarrow> (case parse_task_entry resolver task_entry of Some r \<Rightarrow> [r] | None \<Rightarrow> []))
             (entries_for_section (dict_get cfg event))))"


section \<open>Router (router.py)\<close>

subsection \<open>Policy rules\<close>

definition rule_matches :: "(json \<Rightarrow> string) \<Rightarrow> string \<Rightarrow> string \<Rightarrow> json \<Rightarrow> bool" where
  "rule_matches str_of sev cat rule =
     (let s = strip (lower (py_str str_of rule))
      in if s = [] then False
         else if CHR '':'' \<in> set s
         then (let rcat = takeWhile (\<lambda>c. c \<noteq> CHR '':'') s;
                   rsev = drop 1 (dropWhile (\<lambda>c. c \<noteq> CHR '':'') s)
               in (rcat = [] \<or> rcat = cat) \<and> (rsev = [] \<or> rsev = sev))
         else if s \<in> {''info'', ''warn'', ''error''} then sev = s
         else s = cat)"

definition matches_policy :: "(json \<Rightarrow> string) \<Rightarrow> json list \<Rightarrow> Action \<Rightarrow> bool" where
  "matches_policy str_of block_on a =
     list_ex (rule_matches str_of
                (lower (case a_severity a of Some s \<Rightarrow> s | None \<Rightarrow> []))
                (lower (case a_category a of Some c \<Rightarrow> c | None \<Rightarrow> [])))
             block_on"

definition block_on_of :: "pydict \<Rightarrow> json list" where
  "block_on_of cfg =
     (case dict_get cfg ''policy'' of
        Some (JDict policy) \<Rightarrow> (case dict_get policy ''block_on'' of Some (JList rules) \<Rightarrow> rules | _ \<Rightarrow> [])
      | _ \<Rightarrow> [])"

subsection \<open>Partition of the outcomes\<close>

definition some_text :: "string option \<Rightarrow> bool" where
  "some_text s = (case s of Some x \<Rightarrow> x \<noteq> [] | None \<Rightarrow> False)"

definition some_nonblank :: "string option \<Rightarrow> bool" where
  "some_nonblank s = (case s of Some x \<Rightarrow> strip x \<noteq> [] | None \<Rightarrow> False)"

definition blocks_of :: "(json \<Rightarrow> string) \<Rightarrow> json list \<Rightarrow> Action list \<Rightarrow> Action list" where
  "blocks_of str_of block_on results =
     filter (\<lambda>a. a_block a \<or> matches_policy str_of block_on a) results"

definition adds_of :: "(json \<Rightarrow> string) \<Rightarrow> json list \<Rightarrow> Action list \<Rightarrow> Action list" where
  "adds_of str_of block_on results =
     filter (\<lambda>a. some_text (a_add_context a) \<and> \<not> a_block a \<and> \<not> matches_policy str_of block_on a)
       results"

definition pre_decisions_of :: "Action list \<Rightarrow> Action list" where
  "pre_decisions_of results = filter (\<lambda>a. some_text (a_permission_decision a)) results"

definition enders_of :: "Action list \<Rightarrow> Action list" where
  "enders_of results = filter a_end_turn results"

definition suppress_output_of :: "Action list \<Rightarrow> bool" where
  "suppress_output_of results = list_ex (\<lambda>a. a_suppress_output a = Some True) results"

definition sys_msgs_of :: "Action list \<Rightarrow> string list" where
  "sys_msgs_of results =
     concat (map (\<lambda>a. case a_system_message a of
                         Some m \<Rightarrow> if strip m \<noteq> [] then [strip m] else []
                       | None \<Rightarrow> []) results)"

subsection \<open>Deduplication of advice after a tool action\<close>

fun dedupe_adds ::
  "(string \<Rightarrow> string) \<Rightarrow> real \<Rightarrow> string \<Rightarrow> Action list \<Rightarrow> fb_store \<Rightarrow> Action list \<times> fb_store" where
  "dedupe_adds sha now session_id [] store = ([], store)"
| "dedupe_adds sha now session_id (a # as) store =
     (if \<not> some_text (a_add_context a) then dedupe_adds sha now session_id as store
      else
        let rec = record_feedback sha now (the (a_add_context a))
                    (if some_text (a_task_id a) then the (a_task_id a) else ''unknown'')
                    session_id (a_file_path a) (a_severity a) (a_category a) ''show_once'' store
        in if should_show_feedback (fst rec)
           then (let rest = dedupe_adds sha now session_id as
                              (mark_shown (fi_issue_id (fst rec)) session_id (snd rec))
                 in (a # fst rest, snd rest))
           else dedupe_adds sha now session_id as (snd rec))"

subsection \<open>Texts\<close>

definition is_linebreak :: "char \<Rightarrow> bool" where
  "is_linebreak c = ((of_char c :: nat) \<in> {10, 11, 12, 13, 28, 29, 30, 133})"

fun splitlines_from :: "string \<Rightarrow> string \<Rightarrow> string list" where
  "splitlines_from cur [] = (if cur = [] then [] else [rev cur])"
| "splitlines_from cur [c] = (if is_linebreak c then [rev cur] else [rev (c # cur)])"
| "splitlines_from cur (c # d # cs) =
     (if c = CHR 0x0D \<and> d = CHR 0x0A then rev cur # splitlines_from [] cs
      else if is_linebreak c then rev cur # splitlines_from [] (d # cs)
      else splitlines_from (c # cur) (d # cs))"

definition splitlines :: "string \<Rightarrow> string list" where
  "splitlines text = splitlines_from [] text"

definition truncate_context :: "string \<Rightarrow> nat \<Rightarrow> string" where
  "truncate_context text max_lines =
     (if text = [] then text
      else let lines = splitlines text
           in if length lines \<le> max_lines then text
              else join_with [CHR 0x0A] (take max_lines lines)
                   @ [CHR 0x0A, CHR 0x0A] @ ''... ('' @ show_nat (length lines - max_lines)
                   @ '' more lines truncated for brevity)'')"

definition block_text :: "Action \<Rightarrow> string list" where
  "block_text a =
     (if some_nonblank (a_reason a) then [strip (the (a_reason a))]
      else if some_nonblank (a_add_context a) then [strip (the (a_add_context a))]
      else [])"

definition reason_from_blocks :: "string \<Rightarrow> Action list \<Rightarrow> string" where
  "reason_from_blocks event_name blocks =
     (let texts = concat (map block_text blocks);
          ids = map (\<lambda>a. the (a_task_id a)) (filter (\<lambda>a. some_text (a_task_id a)) blocks)
      in if texts \<noteq> []
         then (let detailed = truncate_context (join_with [CHR 0x0A, CHR 0x0A] texts) 50
               in if event_name = ''PostToolUse'' then ''Issues found:'' @ [CHR 0x0A] @ detailed
                  else detailed)
         else if ids \<noteq> []
         then (if event_name = ''PostToolUse'' then ''Issues found in: '' @ join_with '', '' ids
               else ''Blocked by: '' @ join_with '', '' ids)
         else (if event_name = ''PostToolUse'' then ''Issues found'' else ''Blocked''))"

definition merged_context :: "Action list \<Rightarrow> string" where
  "merged_context adds =
     truncate_context
       (join_with [CHR 0x0A]
          (map (\<lambda>a. the (a_add_context a)) (filter (\<lambda>a. some_nonblank (a_add_context a)) adds)))
       50"

subsection \<open>The response for each event\<close>

definition with_context :: "string \<Rightarrow> string \<Rightarrow> pydict" where
  "with_context event ctx =
     (if ctx \<noteq> []
      then [(''continue'', JBool True),
            (''hookSpecificOutput'',
             JDict [(''hookEventName'', JStr event), (''additionalContext'', JStr ctx)])]
      else [(''continue'', JBool True)])"

definition stop_for :: "Action list \<Rightarrow> pydict" where
  "stop_for enders =
     [(''continue'', JBool False),
      (''stopReason'',
       JStr (case filter (\<lambda>a. some_text (a_reason a)) enders of
               a # _ \<Rightarrow> the (a_reason a)
             | [] \<Rightarrow> ''Requested stop''))]"

definition block_decision :: "string \<Rightarrow> Action list \<Rightarrow> pydict" where
  "block_decision event blocks =
     [(''decision'', JStr ''block''), (''reason'', JStr (reason_from_blocks event blocks))]"

definition event_response ::
  "string \<Rightarrow> Action list \<Rightarrow> Action list \<Rightarrow> Action list \<Rightarrow> Action list \<Rightarrow> pydict" where
  "event_response event blocks adds pre_decisions enders =
     (if event = ''PreToolUse''
      then (if blocks \<noteq> []
            then [(''continue'', JBool True),
                  (''hookSpecificOutput'',
                   JDict [(''hookEventName'', JStr ''PreToolUse''),
                          (''permissionDecision'', JStr ''deny''),
                          (''permissionDecisionReason'', JStr (reason_from_blocks event blocks))])]
            else if enders \<noteq> [] then stop_for enders
            else (case pre_decisions of
                    d # _ \<Rightarrow>
                      [(''continue'', JBool True),
                       (''hookSpecificOutput'',
                        JDict [(''hookEventName'', JStr ''PreToolUse''),
                               (''permissionDecision'', JStr (the (a_permission_decision d))),
                               (''permissionDecisionReason'',
                                JStr (if some_text (a_permission_decision_reason d)
                                      then the (a_permission_decision_reason d) else []))])]
                  | [] \<Rightarrow>
                      (if merged_context adds \<noteq> []
                       then [(''continue'', JBool True),
                             (''hookSpecificOutput'',
                              JDict [(''hookEventName'', JStr ''PreToolUse''),
                                     (''permissionDecision'', JStr ''allow''),
                                     (''permissionDecisionReason'', JStr (merged_context adds))])]
                       else [(''continue'', JBool True)])))
      else if event = ''PostToolUse'' \<or> event = ''UserPromptSubmit'' \<or> event = ''Stop''
              \<or> event = ''SubagentStop'' \<or> event = ''PreCompact''
      then (if blocks \<noteq> [] then block_decision event blocks
            else with_context event (merged_context adds))
      else if event = ''SessionStart''
      then (if blocks \<noteq> []
            then [(''continue'', JBool False), (''stopReason'', JStr (reason_from_blocks event blocks))]
            else if enders \<noteq> [] then stop_for enders
            else with_context event (merged_context adds))
      else if event = ''SessionEnd'' \<or> event = ''Notification''
      then with_context event (merged_context adds)
      else [(''continue'', JBool True)])"

definition common_fields :: "Action list \<Rightarrow> pydict \<Rightarrow> pydict" where
  "common_fields results payload_out =
     (let p1 = (if suppress_output_of results then dict_set payload_out ''suppressOutput'' (JBool True)
                else payload_out)
      in if sys_msgs_of results \<noteq> []
         then dict_set p1 ''systemMessage'' (JStr (join_with [CHR 0x0A] (sys_msgs_of results)))
         else p1)"


subsection \<open>The invocation\<close>

text \<open>
  What persists between invocations: the feedback databases, the queue databases and the
  drop-in directories (with the names of the files in them), each by session directory
  name; \<open>None\<close> where the file or directory does not exist.
\<close>

record world =
  w_feedback :: fb_store
  w_queue :: "string \<rightharpoonup> tq_table"
  w_incoming :: "string \<rightharpoonup> string list"

definition tq_session_name :: "string \<Rightarrow> string" where
  "tq_session_name session_id = take 16 (if session_id = [] then ''default'' else session_id)"

definition tq_get_connection :: "world \<Rightarrow> string \<Rightarrow> tq_table" where
  "tq_get_connection w session_id =
     (case w_queue w (tq_session_name session_id) of None \<Rightarrow> [] | Some t \<Rightarrow> t)"

definition tq_commit :: "world \<Rightarrow> string \<Rightarrow> tq_table \<Rightarrow> world" where
  "tq_commit w session_id t = w\<lparr> w_queue := (w_queue w)(tq_session_name session_id \<mapsto> t) \<rparr>"

text \<open>\<open>task_queue.cleanup_session\<close>: the queue database and the drop-in directory go.\<close>

definition cleanup_task_session :: "string \<Rightarrow> world \<Rightarrow> world" where
  "cleanup_task_session session_id w =
     w\<lparr> w_queue := (w_queue w)(tq_session_name session_id := None),
        w_incoming := (w_incoming w)(tq_session_name session_id := None) \<rparr>"

text \<open>
  What one invocation reads from outside the program: the configuration surroundings,
  which paths are directories, the task resolver, \<open>str\<close> on values that are no strings,
  the waits of the runner, the clock (one reading serves the invocation), the process
  probe and the output files of the background tasks, \<open>json.loads\<close>, SHA-256, and the
  first two housekeeping steps (\<open>import_from_incoming\<close>, then \<open>spawn_tasks\<close>), which create
  task ids and processes, as a change of the world for a session and a working directory.
\<close>

record runtime =
  r_load :: load_env
  r_is_dir :: "string \<Rightarrow> bool"
  r_resolver :: resolver
  r_str :: "json \<Rightarrow> string"
  r_sched :: sched
  r_now :: real
  r_alive :: "int \<Rightarrow> bool"
  r_outputs :: "string \<rightharpoonup> string"
  r_loads :: "string \<Rightarrow> json option"
  r_sha :: "string \<Rightarrow> string"
  r_import_and_spawn :: "string \<Rightarrow> string \<Rightarrow> world \<Rightarrow> world"

datatype outcome = Printed pydict | Crashed crash | Exited string

definition load_error_text :: "load_error \<Rightarrow> string" where
  "load_error_text e =
     (case e of
        NoConfigFound \<Rightarrow> ''No hooks config found. Provide --config or add hooks.yml in your project.''
      | RecursionError \<Rightarrow> ''maximum recursion depth exceeded'')"

definition stop_response :: "string \<Rightarrow> string \<Rightarrow> pydict" where
  "stop_response event msg =
     [(''continue'', JBool False), (''stopReason'', JStr msg), (''systemMessage'', JStr msg),
      (''hookSpecificOutput'',
       JDict [(''hookEventName'', JStr event), (''additionalContext'', JStr msg)])]"

definition offenders_of :: "runtime \<Rightarrow> pydict \<Rightarrow> string list" where
  "offenders_of rt pl =
     (let base = resolve (r_load rt)
                   (case dict_get pl ''cwd'' of
                      Some v \<Rightarrow> if truthy v then py_str (r_str rt) v else ''.''
                    | None \<Rightarrow> ''.'')
      in filter (\<lambda>name. r_is_dir rt (path_join base name)) [''xenohooks'', ''xenomorph''])"

definition namespace_message :: "string list \<Rightarrow> string" where
  "namespace_message offenders =
     ''Reserved package namespace found at project root: '' @ join_with '', '' offenders
     @ ''.'' @ [CHR 0x0A]
     @ ''These folders can shadow the installed xenohooks package and cause import/runtime issues.''
     @ [CHR 0x0A] @ ''Please rename or move these directories out of the project root.''"

text \<open>
  A harvested value becomes an Action. The Action fields are read at the types the
  dataclass declares: a harvested content, severity or category that is no string is
  left out.
\<close>

definition str_field :: "json \<Rightarrow> string option" where
  "str_field v = (case v of JStr s \<Rightarrow> Some s | _ \<Rightarrow> None)"

definition feedback_action :: "feedback_data \<Rightarrow> Action" where
  "feedback_action fb =
     Action0\<lparr> a_add_context := str_field (fd_content fb),
              a_severity := str_field (fd_severity fb),
              a_category := str_field (fd_category fb),
              a_task_id := Some (fd_task_id fb) \<rparr>"

definition session_of :: "runtime \<Rightarrow> pydict \<Rightarrow> string" where
  "session_of rt pl = (case dict_get pl ''session_id'' of Some v \<Rightarrow> py_str (r_str rt) v | None \<Rightarrow> [])"

text \<open>
  \<open>respond\<close> is \<open>main\<close> from the policy lookup to the single print: the partition of the
  outcomes, the deduplication for \<open>PostToolUse\<close>, the event switch with the cleanup for
  \<open>SessionEnd\<close>, and the common fields.
\<close>

definition respond :: "runtime \<Rightarrow> string \<Rightarrow> pydict \<Rightarrow> string \<Rightarrow> Action list \<Rightarrow> world \<Rightarrow> pydict \<times> world" where
  "respond rt event cfg session_id results w =
     (let block_on = block_on_of cfg;
          blocks = blocks_of (r_str rt) block_on results;
          adds0 = adds_of (r_str rt) block_on results;
          deduped = (if event = ''PostToolUse''
                     then dedupe_adds (r_sha rt) (r_now rt) session_id adds0 (w_feedback w)
                     else (adds0, w_feedback w));
          w1 = w\<lparr> w_feedback := snd deduped \<rparr>;
          payload_out = event_response event blocks (fst deduped) (pre_decisions_of results)
                          (enders_of results);
          w2 = (if event = ''SessionEnd''
                then cleanup_task_session session_id
                       (w1\<lparr> w_feedback := fb_cleanup_session session_id (w_feedback w1) \<rparr>)
                else w1)
      in (common_fields results payload_out, w2))"

text \<open>
  The tasks that \<open>main\<close> selects for an event: the tool name and, after a tool action, the
  changed files are read from the hook input.
\<close>

definition tool_name_of :: "runtime \<Rightarrow> pydict \<Rightarrow> string" where
  "tool_name_of rt pl =
     (case dict_get pl ''tool_name'' of
        Some v \<Rightarrow> if truthy v then py_str (r_str rt) v else []
      | None \<Rightarrow> [])"

definition changed_files_of :: "string \<Rightarrow> pydict \<Rightarrow> string list" where
  "changed_files_of event pl =
     (if event = ''PostToolUse'' then collect_changed_files_from_payload pl else [])"

definition selected_tasks :: "runtime \<Rightarrow> string \<Rightarrow> pydict \<Rightarrow> pydict \<Rightarrow> TaskDescriptor list" where
  "selected_tasks rt event cfg pl =
     select_tasks (r_resolver rt) (r_str rt) event cfg (tool_name_of rt pl) (changed_files_of event pl)"

text \<open>
  \<open>main\<close>, from the parsed hook input object on. \<open>config_paths\<close> are the \<open>--config\<close>
  arguments. The result is what the process does (print one JSON object, die of an
  uncaught exception, or exit with a message) and the world it leaves.
\<close>

definition main :: "runtime \<Rightarrow> string list option \<Rightarrow> pydict \<Rightarrow> world \<Rightarrow> outcome \<times> world" where
  "main rt config_paths pl w =
     (case dict_get pl ''hook_event_name'' of
        Some (JStr event) \<Rightarrow>
          if event = [] then (Exited ''xenohooks: missing 'hook_event_name' in input'', w)
          else if event = ''SessionStart'' \<and> offenders_of rt pl \<noteq> []
          then (Printed (stop_response ''SessionStart'' (namespace_message (offenders_of rt pl))), w)
          else
            (case load_config (r_load rt)
                    (case config_paths of None \<Rightarrow> PathNone | Some ps \<Rightarrow> PathList ps) of
               Inl e \<Rightarrow> (Printed (stop_response event (''xenohooks: '' @ load_error_text e)), w)
             | Inr cfg \<Rightarrow>
                 (case py_int (get_or cfg ''default_timeout'' (JInt 12)) of
                    Inl c \<Rightarrow> (Crashed c, w)
                  | Inr timeout \<Rightarrow>
                      let changed = changed_files_of event pl;
                          tasks = selected_tasks rt event cfg pl
                      in if tasks = [] then (Printed [(''continue'', JBool True)], w)
                         else
                           (case run_parallel tasks
                                   \<lparr> p_input = pl, p_files = changed, p_config = cfg,
                                     p_timeout_seconds = timeout \<rparr>
                                   None (r_sched rt) of
                              Inl c \<Rightarrow> (Crashed c, w)
                            | Inr results \<Rightarrow>
                                let session_id = session_of rt pl;
                                    dir = (case dict_get pl ''cwd'' of
                                             Some v \<Rightarrow> py_str (r_str rt) v
                                           | None \<Rightarrow> ''.'');
                                    w1 = r_import_and_spawn rt session_id dir w;
                                    w2 = tq_commit w1 session_id
                                           (snd (check_running_tasks (r_now rt) (r_alive rt) (r_outputs rt)
                                                   (tq_get_connection w1 session_id)));
                                    harvested = process_completed_tasks (r_loads rt)
                                                  (tq_get_connection w2 session_id);
                                    w3 = tq_commit w2 session_id (snd harvested)
                                in (case fst harvested of
                                      Inl c \<Rightarrow> (Crashed c, w3)
                                    | Inr fbs \<Rightarrow>
                                        (let out = respond rt event cfg session_id
                                                     (results @ map feedback_action fbs) w3
                                         in (Printed (fst out), snd out))))))
      | _ \<Rightarrow> (Exited ''xenohooks: missing 'hook_event_name' in input'', w))"


text \<open>
  Surroundings for the worked examples: no configuration file, no directory of a reserved
  name, no module to import, every wait done after a second, the clock at 1000, no live
  process, no output file, nothing to import or spawn. And a world with nothing stored.
\<close>

definition quiet_runtime :: runtime where
  "quiet_runtime =
     \<lparr> r_load = project_env Map.empty, r_is_dir = (\<lambda>p. False),
       r_resolver = (\<lambda>ref. Inl (''No module named '' @ ref)), r_str = (\<lambda>v. []),
       r_sched = (\<lambda>i t. Done 1), r_now = 1000, r_alive = (\<lambda>pid. False),
       r_outputs = Map.empty, r_loads = (\<lambda>s. None), r_sha = (\<lambda>s. s),
       r_import_and_spawn = (\<lambda>session_id dir w. w) \<rparr>"

definition empty_world :: world where
  "empty_world = \<lparr> w_feedback = Map.empty, w_queue = Map.empty, w_incoming = Map.empty \<rparr>"



text \<open>
  For the worked examples: the hook input of a session end, surroundings whose one
  configuration file \<open>/w/hooks.yml\<close> parses to a given document, and a world that holds a
  feedback row, a queued task and a drop-in directory for session \<open>s1\<close>.
\<close>

definition session_end_input :: pydict where
  "session_end_input = [(''hook_event_name'', JStr ''SessionEnd''), (''session_id'', JStr ''s1'')]"

definition configured_runtime :: "json \<Rightarrow> runtime" where
  "configured_runtime doc =
     quiet_runtime\<lparr> r_load := project_env [''/w/hooks.yml'' \<mapsto> CfgFile (Some doc) None] \<rparr>"

definition stored_world :: world where
  "stored_world =
     \<lparr> w_feedback = [''s1'' \<mapsto> [empty_item ''old'']],
       w_queue = [''s1'' \<mapsto> [queued_task ''t1'']],
       w_incoming = [''s1'' \<mapsto> []] \<rparr>"


section \<open>Properties of the FeedbackStore\<close>

text \<open>
  C9. When the content handed to \<open>record_feedback\<close> is empty or only whitespace, the
  function returns the synthetic item with issue id \<open>empty\<close> and strategy \<open>always\<close>,
  \<open>should_show_feedback\<close> answers true on it, and the store is returned exactly as it
  was: no row inserted, updated or purged, no database file created.
\<close>

theorem record_feedback_blank_content:
  assumes "strip content = []"
  shows "fi_issue_id (fst (record_feedback sha now content task_id session_id file_path
                              severity category strategy store)) = ''empty''
       \<and> fi_strategy (fst (record_feedback sha now content task_id session_id file_path
                              severity category strategy store)) = ''always''
       \<and> should_show_feedback (fst (record_feedback sha now content task_id session_id file_path
                              severity category strategy store))
       \<and> snd (record_feedback sha now content task_id session_id file_path
                              severity category strategy store) = store"
  using assms by (simp add: record_feedback_def empty_item_def should_show_feedback_def)

theorem record_feedback_blank_content_witness:
  "strip ''  '' = []
   \<and> fi_issue_id (fst (record_feedback (\<lambda>s. s) 1000 ''  '' ''lint'' ''s1'' None None None
                          ''show_once'' Map.empty)) = ''empty''
   \<and> snd (record_feedback (\<lambda>s. s) 1000 ''  '' ''lint'' ''s1'' None None None
            ''show_once'' Map.empty) = Map.empty"
proof -
  have h: "strip ''  '' = []"
    by (simp add: strip_def is_space_def)
  show ?thesis
    using h record_feedback_blank_content [OF h, of "\<lambda>s. s" 1000 "''lint''" "''s1''" None None None
        "''show_once''" Map.empty]
    by simp
qed



lemma fb_get_connection_commit [simp]:
  "fb_get_connection (fb_commit store sid t) sid = t"
  by (simp add: fb_get_connection_def fb_commit_def)

lemma fb_commit_commit [simp]:
  "fb_commit (fb_commit store sid t) sid t' = fb_commit store sid t'"
  by (simp add: fb_commit_def)








section \<open>Properties of configuration merging\<close>

lemma dict_get_dict_set_same: "dict_get (dict_set d k v) k = Some v"
  by (induction d) (auto simp: dict_get_def)

lemma dict_get_filter_self: "dict_get (filter (\<lambda>kv. fst kv \<noteq> t) d) t = None"
  by (induction d) (auto simp: dict_get_def)

lemma dict_get_filter_other:
  "k \<noteq> t \<Longrightarrow> dict_get (filter (\<lambda>kv. fst kv \<noteq> t) d) k = dict_get d k"
  by (induction d) (auto simp: dict_get_def)

lemma dict_get_append:
  "dict_get (d @ e) k = (case dict_get d k of None \<Rightarrow> dict_get e k | Some v \<Rightarrow> Some v)"
  by (simp add: dict_get_def map_of_append map_add_def split: option.splits)

lemma fold_remove_step:
  "fold remove_step rs od = filter (\<lambda>kv. JStr (fst kv) \<notin> set rs) od"
proof (induction rs arbitrary: od)
  case Nil
  then show ?case by simp
next
  case (Cons r rs)
  have "remove_step r od = filter (\<lambda>kv. JStr (fst kv) \<noteq> r) od"
  proof (cases r)
    case (JStr x)
    have "x \<notin> set (map fst od) \<Longrightarrow> filter (\<lambda>kv. fst kv \<noteq> x) od = od"
      by (induction od) auto
    then show ?thesis
      using JStr by (auto simp: remove_step_def dict_pop_def)
  qed (auto simp: remove_step_def)
  then show ?case
    using Cons.IH by (simp add: conj_commute)
qed

lemma section_tasks_dict_set: "section_tasks (dict_set out ''tasks'' (JList xs)) = xs"
  by (simp add: section_tasks_def dict_get_dict_set_same)

lemma section_tasks_merge_event_sections:
  "section_tasks (merge_event_sections a b) =
     map snd (fold apply_step (section_tasks (normalize_event_section b))
       (case dict_get (normalize_event_section b) ''remove'' of
          Some (JList removes) \<Rightarrow> fold remove_step removes (fold seed_step (section_tasks (normalize_event_section a)) [])
        | _ \<Rightarrow> fold seed_step (section_tasks (normalize_event_section a)) []))"
  by (simp add: merge_event_sections_def Let_def section_tasks_dict_set)

lemma normalize_override:
  assumes "dict_get d ''tasks'' = Some (JList ts)"
  shows "section_tasks (normalize_event_section (JDict d)) = ts"
    and "dict_get (normalize_event_section (JDict d)) ''remove'' = dict_get d ''remove''"
  using assms
  by (simp_all add: normalize_event_section_def section_tasks_def dict_get_append
        dict_get_filter_self dict_get_filter_other)
     (simp_all add: dict_get_def split: option.splits)

text \<open>
  C4. A base section whose tasks are \<open>[A, B, C]\<close>, with three distinct identity keys, is
  merged with an override section whose \<open>remove\<close> list names \<open>C\<close> and whose tasks are
  \<open>[B']\<close>, where \<open>B'\<close> has the key of \<open>B\<close> and is not flagged disabled. The merged task
  list is \<open>[A, B']\<close>. The removes act on the inherited keys before the override's own
  entries are applied: when the override's tasks are \<open>[B', C']\<close> with \<open>C'\<close> under the key
  of \<open>C\<close>, the inherited \<open>C\<close> is dropped first and \<open>C'\<close> then enters at the end, giving
  \<open>[A, B', C']\<close>.
\<close>

theorem override_replaces_and_removes:
  assumes keys: "task_key A = ka" "task_key B = kb" "task_key C = kc"
                "task_key B' = kb" "task_key C' = kc"
      and nonblank: "ka \<noteq> []" "kb \<noteq> []" "kc \<noteq> []"
      and distinct_keys: "ka \<noteq> kb" "ka \<noteq> kc" "kb \<noteq> kc"
      and enabled: "\<not> is_disabled B'" "\<not> is_disabled C'"
      and base: "section_tasks (normalize_event_section base) = [A, B, C]"
      and removes: "dict_get d ''remove'' = Some (JList removes)"
                   "dict_get d2 ''remove'' = Some (JList removes)"
                   "JStr kc \<in> set removes" "JStr ka \<notin> set removes" "JStr kb \<notin> set removes"
      and tasks: "dict_get d ''tasks'' = Some (JList [B'])"
      and tasks2: "dict_get d2 ''tasks'' = Some (JList [B', C'])"
  shows "section_tasks (merge_event_sections base (JDict d)) = [A, B']
       \<and> section_tasks (merge_event_sections base (JDict d2)) = [A, B', C']"
proof -
  have seeded: "fold seed_step [A, B, C] [] = [(ka, A), (kb, B), (kc, C)]"
    using keys nonblank distinct_keys by (simp add: seed_step_def)
  have removed: "fold remove_step removes [(ka, A), (kb, B), (kc, C)] = [(ka, A), (kb, B)]"
    using removes by (simp add: fold_remove_step)
  have applied: "fold apply_step [B'] [(ka, A), (kb, B)] = [(ka, A), (kb, B')]"
    using keys nonblank distinct_keys enabled by (simp add: apply_step_def)
  have applied2: "fold apply_step [B', C'] [(ka, A), (kb, B)] = [(ka, A), (kb, B'), (kc, C')]"
    using keys nonblank distinct_keys enabled by (simp add: apply_step_def)
  have "section_tasks (merge_event_sections base (JDict d))
          = map snd (fold apply_step [B'] (fold remove_step removes (fold seed_step [A, B, C] [])))"
    unfolding section_tasks_merge_event_sections normalize_override [OF tasks] base removes(1)
    by (simp only: option.case json.case)
  also have "\<dots> = map snd [(ka, A), (kb, B')]"
    by (simp only: seeded removed applied)
  finally have first: "section_tasks (merge_event_sections base (JDict d)) = [A, B']"
    by simp
  have "section_tasks (merge_event_sections base (JDict d2))
          = map snd (fold apply_step [B', C'] (fold remove_step removes (fold seed_step [A, B, C] [])))"
    unfolding section_tasks_merge_event_sections normalize_override [OF tasks2] base removes(2)
    by (simp only: option.case json.case)
  also have "\<dots> = map snd [(ka, A), (kb, B'), (kc, C')]"
    by (simp only: seeded removed applied2)
  finally have second: "section_tasks (merge_event_sections base (JDict d2)) = [A, B', C']"
    by simp
  from first second show ?thesis by simp
qed

theorem override_replaces_and_removes_witness:
  "section_tasks (merge_event_sections
      (JList [JStr ''pkg.a'', JStr ''pkg.b'', JStr ''pkg.c''])
      (JDict [(''remove'', JList [JStr ''pkg.c'']),
              (''tasks'', JList [JDict [(''id'', JStr ''pkg.b''), (''ref'', JStr ''pkg.b2'')]])]))
     = [JStr ''pkg.a'', JDict [(''id'', JStr ''pkg.b''), (''ref'', JStr ''pkg.b2'')]]
   \<and> section_tasks (merge_event_sections
      (JList [JStr ''pkg.a'', JStr ''pkg.b'', JStr ''pkg.c''])
      (JDict [(''remove'', JList [JStr ''pkg.c'']),
              (''tasks'', JList [JDict [(''id'', JStr ''pkg.b''), (''ref'', JStr ''pkg.b2'')],
                                 JDict [(''ref'', JStr ''pkg.c'')]])]))
     = [JStr ''pkg.a'', JDict [(''id'', JStr ''pkg.b''), (''ref'', JStr ''pkg.b2'')],
        JDict [(''ref'', JStr ''pkg.c'')]]"
  by (rule override_replaces_and_removes
        [where ka = "''pkg.a''" and kb = "''pkg.b''" and kc = "''pkg.c''"
           and removes = "[JStr ''pkg.c'']"])
     (simp_all add: task_key_def nonblank_str_def strip_def is_space_def is_disabled_def
        dict_get_def section_tasks_def normalize_event_section_def)

lemma seed_step_blank: "task_key e = [] \<Longrightarrow> seed_step e od = od"
  by (simp add: seed_step_def)

lemma seed_step_key: "task_key e \<noteq> [] \<Longrightarrow> seed_step e od = dict_set od (task_key e) e"
  by (simp add: seed_step_def)

lemma fold_seed_cons:
  "k \<noteq> [] \<Longrightarrow>
   fold seed_step es ((k, v) # od)
     = (k, last_with_key k v es) # fold seed_step (filter (\<lambda>x. task_key x \<noteq> k) es) od"
proof (induction es arbitrary: v od)
  case Nil
  then show ?case by simp
next
  case (Cons e es)
  show ?case
  proof (cases "task_key e = []")
    case True
    then show ?thesis
      using Cons by (simp add: seed_step_blank)
  next
    case False
    show ?thesis
    proof (cases "task_key e = k")
      case True
      have "fold seed_step (e # es) ((k, v) # od) = fold seed_step es ((k, e) # od)"
        using True False by (simp add: seed_step_key)
      also have "\<dots> = (k, last_with_key k e es) # fold seed_step (filter (\<lambda>x. task_key x \<noteq> k) es) od"
        by (rule Cons.IH [OF Cons.prems])
      finally show ?thesis
        using True by simp
    next
      case neq: False
      have "fold seed_step (e # es) ((k, v) # od)
              = fold seed_step es ((k, v) # dict_set od (task_key e) e)"
        using neq False by (auto simp: seed_step_key)
      also have "\<dots> = (k, last_with_key k v es)
                        # fold seed_step (filter (\<lambda>x. task_key x \<noteq> k) es) (dict_set od (task_key e) e)"
        by (rule Cons.IH [OF Cons.prems])
      finally show ?thesis
        using neq False by (simp add: seed_step_key)
    qed
  qed
qed

lemma fold_seed_empty:
  "map snd (fold seed_step ts []) = dedup_by_identity ts"
proof (induction ts rule: dedup_by_identity.induct)
  case 1
  then show ?case by simp
next
  case (2 e es)
  show ?case
  proof (cases "task_key e = []")
    case True
    then show ?thesis using 2 by (simp add: seed_step_blank)
  next
    case False
    then show ?thesis using 2 by (simp add: seed_step_key fold_seed_cons)
  qed
qed

lemma fold_seed_twice:
  "fold seed_step ts (fold seed_step ts []) = fold seed_step ts []"
proof (induction ts rule: dedup_by_identity.induct)
  case 1
  then show ?case by simp
next
  case (2 e es)
  show ?case
  proof (cases "task_key e = []")
    case True
    then show ?thesis using 2 by (simp add: seed_step_blank)
  next
    case False
    then show ?thesis using 2 by (simp add: seed_step_key fold_seed_cons)
  qed
qed

lemma fold_apply_is_seed:
  "list_all (\<lambda>e. \<not> is_disabled e) ts \<Longrightarrow> fold apply_step ts od = fold seed_step ts od"
  by (induction ts arbitrary: od) (auto simp: apply_step_def seed_step_def Let_def)

lemma map_fst_dict_set:
  "map fst (dict_set d k v) = (if k \<in> set (map fst d) then map fst d else map fst d @ [k])"
proof (induction d)
  case Nil
  then show ?case by simp
next
  case (Cons a d)
  obtain k' v' where a: "a = (k', v')" by (cases a)
  have mem: "(x, y) \<in> set d \<Longrightarrow> x \<in> fst ` set d" for x y
    by force
  show ?case
    using Cons a by (auto dest: mem)
qed

lemma keys_dict_set: "set (map fst (dict_set d k v)) = insert k (set (map fst d))"
  unfolding map_fst_dict_set by auto

lemma keys_fold_seed:
  "set (map fst (fold seed_step ts od)) \<subseteq> set (map fst od) \<union> task_key ` set ts"
proof (induction ts arbitrary: od)
  case Nil
  then show ?case by simp
next
  case (Cons e es)
  have "set (map fst (seed_step e od)) \<subseteq> insert (task_key e) (set (map fst od))"
    using keys_dict_set [of od "task_key e" e] by (auto simp: seed_step_def Let_def)
  moreover have "set (map fst (fold seed_step es (seed_step e od)))
                   \<subseteq> set (map fst (seed_step e od)) \<union> task_key ` set es"
    by (rule Cons)
  ultimately show ?case
    by (simp del: set_map) blast
qed


lemma dict_set_new: "k \<notin> set (map fst d) \<Longrightarrow> dict_set d k v = d @ [(k, v)]"
  by (induction d) auto

lemma fold_remove_step_none:
  assumes "list_all (\<lambda>e. JStr (task_key e) \<notin> set rs) ts"
  shows "fold remove_step rs (fold seed_step ts []) = fold seed_step ts []"
proof -
  have keys: "set (map fst (fold seed_step ts [])) \<subseteq> task_key ` set ts"
    using keys_fold_seed [of ts "[]"] by simp
  have "\<forall>kv \<in> set (fold seed_step ts []). JStr (fst kv) \<notin> set rs"
  proof
    fix kv
    assume "kv \<in> set (fold seed_step ts [])"
    then have "fst kv \<in> task_key ` set ts"
      using keys by auto
    then show "JStr (fst kv) \<notin> set rs"
      using assms by (auto simp: list_all_iff)
  qed
  then show ?thesis
    by (simp add: fold_remove_step)
qed

lemma merge_event_sections_self:
  assumes "section_plain s"
  shows "merge_event_sections s s = dedup_section s"
proof -
  define n where "n = normalize_event_section s"
  define ts where "ts = section_tasks n"
  have enabled: "list_all (\<lambda>e. \<not> is_disabled e) ts"
    using assms by (simp add: section_plain_def Let_def n_def ts_def)
  have ordered1: "(case dict_get n ''remove'' of
                     Some (JList removes) \<Rightarrow> fold remove_step removes (fold seed_step ts [])
                   | _ \<Rightarrow> fold seed_step ts []) = fold seed_step ts []"
  proof (cases "dict_get n ''remove''")
    case None
    then show ?thesis by simp
  next
    case (Some r)
    show ?thesis
    proof (cases r)
      case (JList rs)
      have "list_all (\<lambda>e. JStr (task_key e) \<notin> set rs) ts"
        using assms Some JList by (simp add: section_plain_def Let_def n_def ts_def)
      then show ?thesis
        using Some JList by (simp add: fold_remove_step_none)
    qed (simp_all add: Some)
  qed
  have ordered2: "fold apply_step ts (fold seed_step ts []) = fold seed_step ts []"
    by (simp add: fold_apply_is_seed [OF enabled] fold_seed_twice)
  have out: "''tasks'' \<notin> set (map fst (filter (\<lambda>kv. fst kv \<noteq> ''tasks'') n))"
    by auto
  have "merge_event_sections s s
          = dict_set (filter (\<lambda>kv. fst kv \<noteq> ''tasks'') n) ''tasks''
              (JList (map snd (fold apply_step ts
                 (case dict_get n ''remove'' of
                    Some (JList removes) \<Rightarrow> fold remove_step removes (fold seed_step ts [])
                  | _ \<Rightarrow> fold seed_step ts []))))"
    unfolding merge_event_sections_def Let_def n_def ts_def by (rule refl)
  also have "\<dots> = filter (\<lambda>kv. fst kv \<noteq> ''tasks'') n @ [(''tasks'', JList (dedup_by_identity ts))]"
    unfolding ordered1 ordered2 fold_seed_empty by (rule dict_set_new [OF out])
  finally show ?thesis
    by (simp add: dedup_section_def Let_def n_def ts_def)
qed

lemma dict_set_same: "dict_get d k = Some v \<Longrightarrow> dict_set d k v = d"
  by (induction d) (auto simp: dict_get_def split: if_splits)

lemma dict_get_mid:
  "k \<notin> set (map fst pre) \<Longrightarrow> dict_get (pre @ (k, v) # b) k = Some v"
  by (induction pre) (auto simp: dict_get_def)

lemma dict_set_mid:
  "k \<notin> set (map fst pre) \<Longrightarrow> dict_set (pre @ (k, v) # b) k v' = pre @ (k, v') # b"
  by (induction pre) auto

lemma merge_into_self_aux:
  "(\<forall>pre. distinct (map fst (pre @ b)) \<longrightarrow> list_all wf_json (map snd b) \<longrightarrow> out = pre @ b
       \<longrightarrow> merge_into out b = out)"
  "(x = Some v \<longrightarrow> wf_json v \<longrightarrow> merge_value x v = v)"
proof (induction out b and x v rule: merge_into_merge_value.induct)
  case (2 out k v b)
  show ?case
  proof (intro allI impI)
    fix pre
    assume d: "distinct (map fst (pre @ (k, v) # b))"
       and w: "list_all wf_json (map snd ((k, v) # b))"
       and o: "out = pre @ (k, v) # b"
    have k_pre: "k \<notin> set (map fst pre)"
      using d by auto
    have get: "dict_get out k = Some v"
      using o k_pre by (simp add: dict_get_mid)
    have val: "merge_value (dict_get out k) v = v"
      using "2.IH"(1) get w by simp
    have same: "dict_set out k (merge_value (dict_get out k) v) = out"
      using get val by (simp add: dict_set_same)
    have "merge_into (dict_set out k (merge_value (dict_get out k) v)) b
            = dict_set out k (merge_value (dict_get out k) v)"
      using "2.IH"(2) d w o same
      by (auto dest!: spec [of _ "pre @ [(k, v)]"])
    then show "merge_into out ((k, v) # b) = out"
      using same by simp
  qed
next
  case (3 x y)
  show ?case
  proof (intro impI)
    assume "Some (JDict x) = Some (JDict y)" and w: "wf_json (JDict y)"
    then have xy: "x = y" by simp
    have "merge_into y y = y"
      using "3.IH" w xy by (auto dest!: spec [of _ "[]"])
    then show "merge_value (Some (JDict x)) (JDict y) = JDict y"
      using xy by simp
  qed
qed auto

lemma merge_value_self: "wf_json v \<Longrightarrow> merge_value (Some v) v = v"
  using merge_into_self_aux(2) [of "Some v" v] by simp

lemma merge_configs_step_self:
  assumes "k \<notin> set (map fst pre)" "wf_json v" "k \<in> set EVENT_KEYS \<longrightarrow> section_plain v"
  shows "merge_configs_step (k, v) (pre @ (k, v) # b)
           = pre @ (if k \<in> set EVENT_KEYS then (k, JDict (dedup_section v)) else (k, v)) # b"
  using assms
  by (simp add: merge_configs_step_def Let_def dict_get_mid dict_set_mid merge_value_self
        merge_event_sections_self)

lemma fold_merge_configs_self:
  "distinct (map fst (pre @ b)) \<Longrightarrow> list_all wf_json (map snd b)
     \<Longrightarrow> list_all (\<lambda>kv. fst kv \<notin> set EVENT_KEYS \<or> section_plain (snd kv)) b
     \<Longrightarrow> fold merge_configs_step b (pre @ b) = pre @ dedup_config b"
proof (induction b arbitrary: pre)
  case Nil
  then show ?case by (simp add: dedup_config_def)
next
  case (Cons kv b)
  obtain k v where kv: "kv = (k, v)" by (cases kv)
  let ?g = "if k \<in> set EVENT_KEYS then (k, JDict (dedup_section v)) else (k, v)"
  have step: "merge_configs_step (k, v) (pre @ (k, v) # b) = (pre @ [?g]) @ b"
    using Cons.prems kv by (subst merge_configs_step_self) auto
  have "fold merge_configs_step b ((pre @ [?g]) @ b) = (pre @ [?g]) @ dedup_config b"
    using Cons.prems kv by (intro Cons.IH) auto
  then show ?case
    using step kv by (simp add: dedup_config_def)
qed

lemma last_with_key_mem: "last_with_key k e es \<in> set (e # es)"
  by (induction es arbitrary: e) auto

lemma last_with_key_key: "task_key e = k \<Longrightarrow> task_key (last_with_key k e es) = k"
  by (induction es arbitrary: e) auto

lemma last_with_key_absent: "\<forall>x \<in> set es. task_key x \<noteq> k \<Longrightarrow> last_with_key k e es = e"
  by (induction es arbitrary: e) auto

lemma set_dedup_by_identity: "set (dedup_by_identity ts) \<subseteq> set ts"
proof (induction ts rule: dedup_by_identity.induct)
  case 1
  then show ?case by simp
next
  case (2 e es)
  show ?case
  proof (cases "task_key e = []")
    case True
    then show ?thesis using 2 by auto
  next
    case False
    then show ?thesis
      using 2 last_with_key_mem [of "task_key e" e es] by auto
  qed
qed

lemma keys_dedup_by_identity:
  "task_key ` set (dedup_by_identity ts) \<subseteq> task_key ` set ts - {[]}"
proof (induction ts rule: dedup_by_identity.induct)
  case 1
  then show ?case by simp
next
  case (2 e es)
  show ?case
  proof (cases "task_key e = []")
    case True
    then show ?thesis using 2 by auto
  next
    case False
    then show ?thesis
      using 2 last_with_key_key [of e "task_key e" es] by auto
  qed
qed

lemma distinct_dedup_by_identity: "distinct (map task_key (dedup_by_identity ts))"
proof (induction ts rule: dedup_by_identity.induct)
  case 1
  then show ?case by simp
next
  case (2 e es)
  show ?case
  proof (cases "task_key e = []")
    case True
    then show ?thesis using 2 by simp
  next
    case False
    have "task_key e \<notin> task_key ` set (dedup_by_identity (filter (\<lambda>x. task_key x \<noteq> task_key e) es))"
      using keys_dedup_by_identity [of "filter (\<lambda>x. task_key x \<noteq> task_key e) es"] by auto
    then show ?thesis
      using 2 False by (simp add: last_with_key_key)
  qed
qed

lemma dedup_by_identity_fixed:
  "\<forall>x \<in> set xs. task_key x \<noteq> [] \<Longrightarrow> distinct (map task_key xs) \<Longrightarrow> dedup_by_identity xs = xs"
proof (induction xs)
  case Nil
  then show ?case by simp
next
  case (Cons e es)
  have "task_key e \<notin> task_key ` set es"
    using Cons.prems(2) by simp
  then have absent: "\<forall>x \<in> set es. task_key x \<noteq> task_key e"
    by (metis imageI)
  then have "filter (\<lambda>x. task_key x \<noteq> task_key e) es = es"
    by (simp add: filter_id_conv)
  then show ?case
    using Cons absent by (simp add: last_with_key_absent)
qed

lemma dedup_by_identity_idem: "dedup_by_identity (dedup_by_identity ts) = dedup_by_identity ts"
  using keys_dedup_by_identity [of ts]
  by (intro dedup_by_identity_fixed distinct_dedup_by_identity) auto

lemma normalize_dedup_section:
  "normalize_event_section (JDict (dedup_section v)) = dedup_section v"
  by (simp add: normalize_event_section_def dedup_section_def Let_def dict_get_append
        dict_get_filter_self)
     (simp add: dict_get_def)

lemma section_tasks_dedup_section:
  "section_tasks (dedup_section v)
     = dedup_by_identity (section_tasks (normalize_event_section v))"
  by (simp add: section_tasks_def dedup_section_def Let_def dict_get_append dict_get_filter_self)
     (simp add: dict_get_def)

lemma dedup_section_idem: "dedup_section (JDict (dedup_section v)) = dedup_section v"
proof -
  have "dedup_section (JDict (dedup_section v))
          = filter (\<lambda>kv. fst kv \<noteq> ''tasks'') (dedup_section v)
            @ [(''tasks'', JList (dedup_by_identity (section_tasks (dedup_section v))))]"
    by (simp add: dedup_section_def [of "JDict (dedup_section v)"] normalize_dedup_section Let_def)
  also have "\<dots> = dedup_section v"
    by (simp add: section_tasks_dedup_section dedup_by_identity_idem)
       (simp add: dedup_section_def Let_def)
  finally show ?thesis .
qed

lemma dedup_config_idem: "dedup_config (dedup_config c) = dedup_config c"
  by (induction c) (auto simp: dedup_config_def dedup_section_idem)

lemma wf_dedup_section:
  assumes "wf_json v"
  shows "wf_json (JDict (dedup_section v))"
proof -
  define n where "n = normalize_event_section v"
  have n: "distinct (map fst (filter (\<lambda>kv. fst kv \<noteq> ''tasks'') n))
         \<and> list_all wf_json (map snd n)"
  proof (cases v)
    case (JList xs)
    then show ?thesis
      using assms by (simp add: n_def normalize_event_section_def)
  next
    case (JDict d)
    have "dict_get d ''tasks'' = Some (JList ts) \<Longrightarrow> list_all wf_json ts" for ts
      using assms JDict by (auto simp: dict_get_def list_all_iff dest!: map_of_SomeD)
    then show ?thesis
      using assms JDict
      by (auto simp: n_def normalize_event_section_def distinct_map_filter list_all_iff
            split: option.splits json.splits)
  qed (simp_all add: n_def normalize_event_section_def)
  have ts: "list_all wf_json (dedup_by_identity (section_tasks n))"
  proof -
    have "list_all wf_json (section_tasks n)"
      using n by (auto simp: section_tasks_def dict_get_def list_all_iff
            split: option.splits json.splits dest!: map_of_SomeD [OF sym])
    then show ?thesis
      using set_dedup_by_identity [of "section_tasks n"] by (auto simp: list_all_iff)
  qed
  show ?thesis
    using n ts by (auto simp: dedup_section_def Let_def n_def [symmetric] list_all_iff)
qed

lemma section_plain_dedup_section:
  assumes "section_plain v"
  shows "section_plain (JDict (dedup_section v))"
proof -
  define n where "n = normalize_event_section v"
  define ts where "ts = section_tasks n"
  have rm: "dict_get (dedup_section v) ''remove'' = dict_get n ''remove''"
    by (simp add: dedup_section_def Let_def n_def dict_get_append dict_get_filter_other)
       (simp add: dict_get_def split: option.splits)
  have sub: "set (dedup_by_identity ts) \<subseteq> set ts"
    by (rule set_dedup_by_identity)
  have "list_all (\<lambda>e. \<not> is_disabled e) (dedup_by_identity ts)"
    using assms sub by (auto simp: section_plain_def Let_def n_def ts_def list_all_iff)
  moreover have "case dict_get n ''remove'' of
                   Some (JList rs) \<Rightarrow> list_all (\<lambda>e. JStr (task_key e) \<notin> set rs) (dedup_by_identity ts)
                 | _ \<Rightarrow> True"
    using assms sub
    by (auto simp: section_plain_def Let_def n_def ts_def list_all_iff
          split: option.splits json.splits)
  ultimately show ?thesis
    unfolding section_plain_def [of "JDict (dedup_section v)"] normalize_dedup_section Let_def
      section_tasks_dedup_section rm n_def ts_def
    by simp
qed

lemma config_plain_dedup_config:
  assumes "config_plain c"
  shows "config_plain (dedup_config c)"
proof -
  have keys: "map fst (dedup_config c) = map fst c"
    by (induction c) (auto simp: dedup_config_def)
  have c_wf: "\<forall>kv \<in> set c. wf_json (snd kv)"
    using assms by (auto simp: config_plain_def list_all_iff)
  have "wf_json (snd (if fst kv \<in> set EVENT_KEYS
                      then (fst kv, JDict (dedup_section (snd kv))) else kv))"
    if "kv \<in> set c" for kv
  proof (cases "fst kv \<in> set EVENT_KEYS")
    case True
    have "wf_json (JDict (dedup_section (snd kv)))"
      using c_wf that by (intro wf_dedup_section) simp
    then show ?thesis
      using True by (simp del: wf_json.simps)
  next
    case False
    then show ?thesis
      using c_wf that by simp
  qed
  then have vals: "list_all wf_json (map snd (dedup_config c))"
    by (simp add: dedup_config_def list_all_iff del: wf_json.simps)
  have plain: "list_all (\<lambda>kv. fst kv \<notin> set EVENT_KEYS \<or> section_plain (snd kv)) (dedup_config c)"
    using assms
    by (auto simp: config_plain_def dedup_config_def list_all_iff section_plain_dedup_section)
  show ?thesis
    using assms keys vals plain by (simp add: config_plain_def)
qed

text \<open>
  C8, as the code has it. For a plain config \<open>c\<close> (no entry flagged disabled, no
  \<open>remove\<close> list naming an entry of its own section), \<open>_merge_configs(c, c)\<close> leaves every
  key outside the event sections as it is and puts each event section into its dict shape
  with the task list deduplicated by identity, first positions kept. Merging that result
  with itself changes nothing further.
\<close>

theorem merge_configs_self:
  assumes "config_plain c"
  shows "merge_configs c c = dedup_config c
       \<and> merge_configs (merge_configs c c) (merge_configs c c) = merge_configs c c"
proof -
  have once: "merge_configs c c = dedup_config c" if "config_plain c" for c
    using that fold_merge_configs_self [of "[]" c]
    by (simp add: config_plain_def merge_configs_def)
  have "merge_configs (dedup_config c) (dedup_config c) = dedup_config (dedup_config c)"
    by (rule once [OF config_plain_dedup_config [OF assms]])
  then show ?thesis
    using once [OF assms] by (simp add: dedup_config_idem)
qed


theorem merge_configs_self_witness:
  "config_plain
     [(''concurrency'', JInt 4),
      (''policy'', JDict [(''block_on'', JList [JStr ''error''])]),
      (''PostToolUse'', JList [JStr ''pkg.a'', JDict [(''ref'', JStr ''pkg.b''), (''timeout'', JInt 5)],
                               JStr ''pkg.a''])]
   \<and> merge_configs
     [(''concurrency'', JInt 4),
      (''policy'', JDict [(''block_on'', JList [JStr ''error''])]),
      (''PostToolUse'', JList [JStr ''pkg.a'', JDict [(''ref'', JStr ''pkg.b''), (''timeout'', JInt 5)],
                               JStr ''pkg.a''])]
     [(''concurrency'', JInt 4),
      (''policy'', JDict [(''block_on'', JList [JStr ''error''])]),
      (''PostToolUse'', JList [JStr ''pkg.a'', JDict [(''ref'', JStr ''pkg.b''), (''timeout'', JInt 5)],
                               JStr ''pkg.a''])]
   = [(''concurrency'', JInt 4),
      (''policy'', JDict [(''block_on'', JList [JStr ''error''])]),
      (''PostToolUse'', JDict [(''tasks'',
          JList [JStr ''pkg.a'', JDict [(''ref'', JStr ''pkg.b''), (''timeout'', JInt 5)]])])]"
proof -
  let ?c = "[(''concurrency'', JInt 4),
      (''policy'', JDict [(''block_on'', JList [JStr ''error''])]),
      (''PostToolUse'', JList [JStr ''pkg.a'', JDict [(''ref'', JStr ''pkg.b''), (''timeout'', JInt 5)],
                               JStr ''pkg.a''])]"
  have h: "config_plain ?c"
    by code_simp
  have d: "dedup_config ?c = [(''concurrency'', JInt 4),
      (''policy'', JDict [(''block_on'', JList [JStr ''error''])]),
      (''PostToolUse'', JDict [(''tasks'',
          JList [JStr ''pkg.a'', JDict [(''ref'', JStr ''pkg.b''), (''timeout'', JInt 5)]])])]"
    by code_simp
  show ?thesis
    using h merge_configs_self [OF h] d by simp
qed

text \<open>
  C8 as stated, for every config, fails. A section that lists \<open>K, L\<close> and also removes
  \<open>K\<close> comes out of the self-merge as \<open>L, K\<close>: the remove pops the seeded \<open>K\<close>, and the
  section's own entry puts it back at the end. A section whose first entry disables
  identity \<open>a\<close> and whose second entry defines it comes out with \<open>a\<close> behind \<open>b\<close>.
\<close>

theorem merge_configs_self_reorders:
  "merge_configs
     [(''PostToolUse'', JDict [(''tasks'', JList [JStr ''K'', JStr ''L'']),
                               (''remove'', JList [JStr ''K''])])]
     [(''PostToolUse'', JDict [(''tasks'', JList [JStr ''K'', JStr ''L'']),
                               (''remove'', JList [JStr ''K''])])]
   = [(''PostToolUse'', JDict [(''remove'', JList [JStr ''K'']),
                               (''tasks'', JList [JStr ''L'', JStr ''K''])])]
   \<and> merge_configs
     [(''PostToolUse'', JList [JDict [(''id'', JStr ''a''), (''disabled'', JBool True)],
                               JDict [(''id'', JStr ''a'')], JStr ''b''])]
     [(''PostToolUse'', JList [JDict [(''id'', JStr ''a''), (''disabled'', JBool True)],
                               JDict [(''id'', JStr ''a'')], JStr ''b''])]
   = [(''PostToolUse'', JDict [(''tasks'', JList [JStr ''b'', JDict [(''id'', JStr ''a'')]])])]"
  by code_simp

section \<open>Properties of configuration loading\<close>

lemma resolve_items_never_no_config:
  assumes "\<And>m d origin seen. n = Suc m \<Longrightarrow> resolve_extends m env d origin seen \<noteq> Inl NoConfigFound"
  shows "resolve_items n env items base_dir merged seen \<noteq> Inl NoConfigFound"
proof (induction items arbitrary: merged seen)
  case Nil
  then show ?case by simp
next
  case (Cons raw rest)
  show ?case
    unfolding resolve_items.simps(2) [of n env raw rest base_dir merged seen]
    using Cons assms
    by (auto simp: Let_def simp del: resolve_items.simps
          split: json.splits option.splits nat.splits sum.splits prod.splits)
qed

lemma resolve_extends_never_no_config:
  "resolve_extends n env cfg origin seen \<noteq> Inl NoConfigFound"
proof (induction n arbitrary: cfg origin seen)
  case 0
  show ?case
    unfolding resolve_extends.simps [of 0 env cfg origin seen]
    using resolve_items_never_no_config [of 0 env]
    by (auto split: option.splits json.splits list.splits sum.splits simp del: resolve_items.simps)
next
  case (Suc n)
  have items: "resolve_items (Suc n) env items base_dir merged seen' \<noteq> Inl NoConfigFound"
    for items base_dir merged seen'
    using Suc by (intro resolve_items_never_no_config) simp
  show ?case
    unfolding resolve_extends.simps [of "Suc n" env cfg origin seen]
    using items
    by (auto split: option.splits json.splits list.splits sum.splits simp del: resolve_items.simps)
qed

lemma load_sources_never_no_config:
  "load_sources env srcs result seen \<noteq> Inl NoConfigFound"
proof (induction srcs arbitrary: result seen)
  case Nil
  then show ?case by simp
next
  case (Cons src srcs)
  show ?case
    using Cons resolve_extends_never_no_config [of "recursion_limit env" env]
    by (auto split: option.splits sum.splits prod.splits)
qed

lemma load_sources_all_skipped:
  "\<forall>src \<in> set srcs. fst (load_one env src None) = None
     \<Longrightarrow> load_sources env srcs result seen = Inr result"
  by (induction srcs arbitrary: result seen) (auto split: option.splits prod.splits)

lemma discover_empty:
  "discover env = [] \<longleftrightarrow> (\<forall>p \<in> set (candidate_paths env). files env p = None)"
proof -
  have "discover env = [] \<longleftrightarrow> filter (\<lambda>p. files env p \<noteq> None) (candidate_paths env) = []"
    by (simp add: discover_def split: list.splits)
  then show ?thesis
    by (simp add: filter_empty_conv)
qed

lemma sources_of_empty:
  "sources_of env key = []
     \<longleftrightarrow> (key = None \<or> key = Some []) \<and> (\<forall>p \<in> set (candidate_paths env). files env p = None)"
  by (cases key) (auto simp: sources_of_def discover_empty split: list.splits)

lemma filter_no_extends:
  "dict_get d ''extends'' = None \<Longrightarrow> filter (\<lambda>kv. fst kv \<noteq> ''extends'') d = d"
  by (induction d) (auto simp: dict_get_def split: if_splits)

text \<open>
  C2, as the code has it. \<open>_load_config_cached\<close> raises its "No hooks config found"
  error in exactly one situation: no source was passed and none of the candidate paths
  exists. A source that is missing or fails to parse is skipped, and when every source is
  skipped the built-in defaults are returned. A single source that parses to a document
  without \<open>extends\<close>, an empty task list included, gives the defaults merged with it.
  When the load raises, \<open>main\<close> prints the stop response with the error's text and changes
  nothing.
\<close>

theorem config_fatal_only_without_source:
  "(load_config_cached env key = Inl NoConfigFound
      \<longleftrightarrow> (key = None \<or> key = Some []) \<and> (\<forall>p \<in> set (candidate_paths env). files env p = None))
   \<and> (sources_of env key \<noteq> []
        \<longrightarrow> (\<forall>src \<in> set (sources_of env key). fst (load_one env src None) = None)
        \<longrightarrow> load_config_cached env key = Inr DEFAULTS)
   \<and> (sources_of env key = [src]
        \<longrightarrow> load_one env src None = (Some d, origin)
        \<longrightarrow> dict_get d ''extends'' = None
        \<longrightarrow> load_config_cached env key = Inr (merge_configs DEFAULTS d))
   \<and> (dict_get pl ''hook_event_name'' = Some (JStr event)
        \<longrightarrow> event \<noteq> []
        \<longrightarrow> (event = ''SessionStart'' \<longrightarrow> offenders_of rt pl = [])
        \<longrightarrow> load_config (r_load rt) (case config_paths of None \<Rightarrow> PathNone | Some ps \<Rightarrow> PathList ps)
              = Inl e
        \<longrightarrow> main rt config_paths pl w
              = (Printed (stop_response event (''xenohooks: '' @ load_error_text e)), w))"
proof (intro conjI impI)
  show "load_config_cached env key = Inl NoConfigFound
      \<longleftrightarrow> (key = None \<or> key = Some []) \<and> (\<forall>p \<in> set (candidate_paths env). files env p = None)"
    unfolding sources_of_empty [symmetric]
    by (simp add: load_config_cached_def load_sources_never_no_config)
next
  assume "sources_of env key \<noteq> []"
     and "\<forall>src \<in> set (sources_of env key). fst (load_one env src None) = None"
  then show "load_config_cached env key = Inr DEFAULTS"
    by (simp add: load_config_cached_def load_sources_all_skipped)
next
  assume "sources_of env key = [src]" and "load_one env src None = (Some d, origin)"
     and "dict_get d ''extends'' = None"
  then show "load_config_cached env key = Inr (merge_configs DEFAULTS d)"
    by (simp add: load_config_cached_def filter_no_extends resolve_extends.simps)
next
  assume "dict_get pl ''hook_event_name'' = Some (JStr event)" and "event \<noteq> []"
     and "event = ''SessionStart'' \<longrightarrow> offenders_of rt pl = []"
     and "load_config (r_load rt) (case config_paths of None \<Rightarrow> PathNone | Some ps \<Rightarrow> PathList ps)
            = Inl e"
  then show "main rt config_paths pl w
               = (Printed (stop_response event (''xenohooks: '' @ load_error_text e)), w)"
    by (cases "event = ''SessionStart''") (simp_all add: main_def)
qed


theorem config_fatal_only_without_source_witness:
  "sources_of (project_env [''/w/hooks.yml'' \<mapsto>
        CfgFile (Some (JDict [(''PostToolUse'', JDict [(''tasks'', JList [])])])) None]) None
     = [''/w/hooks.yml'']
   \<and> load_config_cached (project_env [''/w/hooks.yml'' \<mapsto>
        CfgFile (Some (JDict [(''PostToolUse'', JDict [(''tasks'', JList [])])])) None]) None
     = Inr (merge_configs DEFAULTS [(''PostToolUse'', JDict [(''tasks'', JList [])])])
   \<and> load_config_cached (project_env Map.empty) None = Inl NoConfigFound"
proof -
  let ?d = "[(''PostToolUse'', JDict [(''tasks'', JList [])])]"
  let ?env = "project_env [''/w/hooks.yml'' \<mapsto> CfgFile (Some (JDict ?d)) None]"
  have s: "sources_of ?env None = [''/w/hooks.yml'']"
    by (simp add: sources_of_def discover_def candidate_paths_def project_env_def path_join_def
          is_absolute_def)
  have l: "load_one ?env ''/w/hooks.yml'' None = (Some ?d, Some ''/w/hooks.yml'')"
    by (simp add: load_one_def project_env_def strip_def is_space_def path_suffix_def path_name_def
          lower_def lower_char_def try_load_yaml_text_def as_dict_def Let_def)
  have e: "dict_get ?d ''extends'' = None"
    by (simp add: dict_get_def)
  have n: "\<forall>p \<in> set (candidate_paths (project_env Map.empty)). files (project_env Map.empty) p = None"
    by (simp add: project_env_def)
  show ?thesis
    using config_fatal_only_without_source [of ?env None "''/w/hooks.yml''" ?d "Some ''/w/hooks.yml''"]
      config_fatal_only_without_source [of "project_env Map.empty" None] s l e n
    by simp
qed

text \<open>
  C2 as stated fails where every candidate exists but does not parse. \<open>/w/hooks.yml\<close> is
  the one candidate found and neither parser accepts it: the load returns the defaults
  instead of failing. The same holds for two sources passed by name, neither of which
  parses. The invocation then goes on with the defaults and prints \<open>{"continue": true}\<close>.
\<close>

theorem unparseable_candidate_is_not_fatal:
  "sources_of (project_env [''/w/hooks.yml'' \<mapsto> CfgFile None None]) None = [''/w/hooks.yml'']
   \<and> load_one (project_env [''/w/hooks.yml'' \<mapsto> CfgFile None None]) ''/w/hooks.yml'' None
       = (None, Some ''/w/hooks.yml'')
   \<and> load_config_cached (project_env [''/w/hooks.yml'' \<mapsto> CfgFile None None]) None = Inr DEFAULTS
   \<and> load_config_cached
         (project_env [''/w/a.yml'' \<mapsto> CfgFile None None, ''/w/b.json'' \<mapsto> CfgFile None None])
         (Some [''/w/a.yml'', ''/w/b.json'']) = Inr DEFAULTS
   \<and> fst (main (quiet_runtime\<lparr> r_load := project_env [''/w/hooks.yml'' \<mapsto> CfgFile None None] \<rparr>)
              None session_end_input empty_world)
       = Printed [(''continue'', JBool True)]"
  by code_simp

section \<open>Properties of the TaskRunner\<close>











section \<open>Properties of the background queue\<close>

lemma bt_task_id_apply_update [simp]: "bt_task_id (apply_update u r) = bt_task_id r"
  by (simp add: apply_update_def)

lemma select_task_update:
  "select_task (update_task_status j u t) i
     = (if i = j then map_option (apply_update u) (select_task t i) else select_task t i)"
  by (induction t) (auto simp: select_task_def update_task_status_def)

lemma select_task_check_one_other:
  "bt_task_id task \<noteq> i \<Longrightarrow>
   select_task (snd (check_one now alive fs task st)) i = select_task (snd st) i"
  by (auto simp: check_one_def select_task_update Let_def split: option.splits)

lemma fst_check_one_mono:
  "set (fst st) \<subseteq> set (fst (check_one now alive fs task st))"
  by (auto simp: check_one_def Let_def split: option.splits)

lemma fold_check_one_other:
  "\<forall>r \<in> set rs. bt_task_id r \<noteq> i \<Longrightarrow>
   select_task (snd (fold (check_one now alive fs) rs st)) i = select_task (snd st) i"
  by (induction rs arbitrary: st) (auto simp: select_task_check_one_other)

lemma fold_check_one_mono:
  "set (fst st) \<subseteq> set (fst (fold (check_one now alive fs) rs st))"
proof (induction rs arbitrary: st)
  case Nil
  then show ?case by simp
next
  case (Cons r rs)
  show ?case
    using fst_check_one_mono [of st now alive fs r] Cons [of "check_one now alive fs r st"]
    by auto
qed

lemma check_one_gone:
  assumes "\<not> timed_out now task" "bt_metadata task = Some md" "dict_get md ''pid'' = Some pid"
          "process_gone alive pid" "select_task (snd st) (bt_task_id task) = Some task"
  shows "select_task (snd (check_one now alive fs task st)) (bt_task_id task)
           = Some (polled_row now fs task)"
    and "bt_task_id task \<in> set (fst (check_one now alive fs task st))"
  using assms
  by (auto simp: check_one_def select_task_update Let_def polled_row_def apply_update_def
        no_update_def)

lemma fold_check_one_gone:
  assumes "distinct (map bt_task_id rs)" "task \<in> set rs"
          "\<not> timed_out now task" "bt_metadata task = Some md" "dict_get md ''pid'' = Some pid"
          "process_gone alive pid" "select_task (snd st) (bt_task_id task) = Some task"
  shows "select_task (snd (fold (check_one now alive fs) rs st)) (bt_task_id task)
           = Some (polled_row now fs task)
       \<and> bt_task_id task \<in> set (fst (fold (check_one now alive fs) rs st))"
  using assms(1,2,7)
proof (induction rs arbitrary: st)
  case Nil
  then show ?case by simp
next
  case (Cons r rs)
  show ?case
  proof (cases "r = task")
    case True
    have "bt_task_id task \<notin> bt_task_id ` set rs"
      using Cons.prems(1) True by simp
    then have others: "\<forall>x \<in> set rs. bt_task_id x \<noteq> bt_task_id task"
      by (metis imageI)
    have a: "select_task (snd (check_one now alive fs task st)) (bt_task_id task)
               = Some (polled_row now fs task)"
      and b: "bt_task_id task \<in> set (fst (check_one now alive fs task st))"
      using check_one_gone [OF assms(3,4,5,6) Cons.prems(3)] by auto
    show ?thesis
      using True a b fold_check_one_other [OF others, of now alive fs "check_one now alive fs task st"]
        fold_check_one_mono [of "check_one now alive fs task st" now alive fs rs]
      by auto
  next
    case False
    then have in_rest: "task \<in> set rs"
      using Cons.prems(2) by simp
    then have "bt_task_id r \<noteq> bt_task_id task"
      using Cons.prems(1) by (metis distinct.simps(2) imageI list.simps(9) set_map)
    then have "select_task (snd (check_one now alive fs r st)) (bt_task_id task) = Some task"
      using Cons.prems(3) by (simp add: select_task_check_one_other)
    then show ?thesis
      using Cons.IH [of "check_one now alive fs r st"] Cons.prems(1) in_rest by simp
  qed
qed

lemma select_task_distinct:
  "distinct (map bt_task_id t) \<Longrightarrow> task \<in> set t \<Longrightarrow> select_task t (bt_task_id task) = Some task"
  by (induction t) (auto simp: select_task_def)

lemma distinct_order_asc:
  assumes "distinct (map f rows)"
  shows "distinct (map f (order_asc col rows))"
proof -
  have d: "distinct rows" and i: "inj_on f (set rows)"
    using assms by (simp_all add: distinct_map)
  have "distinct (order_asc col rows)"
    using d by (auto simp: order_asc_def)
  moreover have "set (order_asc col rows) = set rows"
    by (auto simp: order_asc_def)
  ultimately show ?thesis
    using i by (simp add: distinct_map)
qed

lemma set_order_asc: "set (order_asc col rows) = set rows"
  by (auto simp: order_asc_def)

lemma captured_text:
  assumes "bt_metadata task = Some md"
  shows "read_output fs (output_file task key)
           = (case dict_get md key of
                Some (JStr p) \<Rightarrow> if p = [] then [] else (case fs p of Some text \<Rightarrow> text | None \<Rightarrow> [])
              | _ \<Rightarrow> [])"
  using assms
  by (auto simp: read_output_def output_file_def truthy_def split: option.splits json.splits)

text \<open>
  C7. A running task is polled at clock reading \<open>now\<close>; its elapsed time has not
  exceeded its timeout, and the probe of its recorded process id finds no process. The
  poll reads back the two capture files that the row's metadata names, \<open>stdout_file\<close> and
  \<open>stderr_file\<close>, and writes their texts to the row (the empty text for a file that is
  not named or cannot be read); the row becomes \<open>completed\<close> with exit code 0 when the
  captured stderr is empty, and \<open>failed\<close> with exit code 1 otherwise; the task id is
  among those reported. Task ids are the primary key of the table.
\<close>

theorem poll_classifies_by_stderr:
  assumes "distinct (map bt_task_id t)"
      and "task \<in> set t" "bt_status task = ''running''"
      and "\<not> timed_out now task"
      and "bt_metadata task = Some md" "dict_get md ''pid'' = Some pid" "process_gone alive pid"
      and "stdout_content
             = (case dict_get md ''stdout_file'' of
                  Some (JStr p) \<Rightarrow> if p = [] then [] else (case fs p of Some text \<Rightarrow> text | None \<Rightarrow> [])
                | _ \<Rightarrow> [])"
      and "stderr_content
             = (case dict_get md ''stderr_file'' of
                  Some (JStr p) \<Rightarrow> if p = [] then [] else (case fs p of Some text \<Rightarrow> text | None \<Rightarrow> [])
                | _ \<Rightarrow> [])"
  shows "select_task (snd (check_running_tasks now alive fs t)) (bt_task_id task)
           = Some (task\<lparr> bt_status := (if stderr_content = [] then ''completed'' else ''failed''),
                         bt_completed_at := Some now,
                         bt_exit_code := Some (if stderr_content = [] then 0 else 1),
                         bt_stdout := Some stdout_content,
                         bt_stderr := Some stderr_content \<rparr>)
       \<and> bt_task_id task \<in> set (fst (check_running_tasks now alive fs t))"
proof -
  have d: "distinct (map bt_task_id (get_running_tasks t))"
    using assms(1) by (simp add: get_running_tasks_def distinct_order_asc distinct_map_filter)
  have m: "task \<in> set (get_running_tasks t)"
    using assms(2,3) by (simp add: get_running_tasks_def set_order_asc)
  have s: "select_task (snd ([], t)) (bt_task_id task) = Some task"
    using assms(1,2) by (simp add: select_task_distinct)
  have out: "stdout_content = read_output fs (output_file task ''stdout_file'')"
    using assms(8) by (simp add: captured_text [OF assms(5)])
  have err: "stderr_content = read_output fs (output_file task ''stderr_file'')"
    using assms(9) by (simp add: captured_text [OF assms(5)])
  show ?thesis
    using fold_check_one_gone [OF d m assms(4,5,6,7) s, of fs] out err
    by (simp add: check_running_tasks_def polled_row_def)
qed


theorem poll_classifies_by_stderr_witness:
  "select_task
     (snd (check_running_tasks 1000 (\<lambda>pid. False)
             [''/o/t1.stdout'' \<mapsto> ''12 passed'', ''/o/t1.stderr'' \<mapsto> [],
              ''/o/t2.stdout'' \<mapsto> ''cc -c main.c'', ''/o/t2.stderr'' \<mapsto> ''make: *** Error 2'']
             [spawned_task ''t1'' 4242 950, spawned_task ''t2'' 4243 960]))
     ''t1''
   = Some ((spawned_task ''t1'' 4242 950)
             \<lparr> bt_status := ''completed'', bt_completed_at := Some 1000, bt_exit_code := Some 0,
               bt_stdout := Some ''12 passed'', bt_stderr := Some [] \<rparr>)
   \<and> select_task
     (snd (check_running_tasks 1000 (\<lambda>pid. False)
             [''/o/t1.stdout'' \<mapsto> ''12 passed'', ''/o/t1.stderr'' \<mapsto> [],
              ''/o/t2.stdout'' \<mapsto> ''cc -c main.c'', ''/o/t2.stderr'' \<mapsto> ''make: *** Error 2'']
             [spawned_task ''t1'' 4242 950, spawned_task ''t2'' 4243 960]))
     ''t2''
   = Some ((spawned_task ''t2'' 4243 960)
             \<lparr> bt_status := ''failed'', bt_completed_at := Some 1000, bt_exit_code := Some 1,
               bt_stdout := Some ''cc -c main.c'', bt_stderr := Some ''make: *** Error 2'' \<rparr>)"
proof -
  let ?fs = "[''/o/t1.stdout'' \<mapsto> ''12 passed'', ''/o/t1.stderr'' \<mapsto> [],
              ''/o/t2.stdout'' \<mapsto> ''cc -c main.c'', ''/o/t2.stderr'' \<mapsto> ''make: *** Error 2'']"
  let ?t = "[spawned_task ''t1'' 4242 950, spawned_task ''t2'' 4243 960]"
  let ?md1 = "[(''pid'', JInt 4242), (''stdout_file'', JStr ''/o/t1.stdout''),
               (''stderr_file'', JStr ''/o/t1.stderr'')]"
  let ?md2 = "[(''pid'', JInt 4243), (''stdout_file'', JStr ''/o/t2.stdout''),
               (''stderr_file'', JStr ''/o/t2.stderr'')]"
  have 1: "distinct (map bt_task_id ?t)"
    by (simp add: spawned_task_def queued_task_def)
  have 2: "spawned_task ''t1'' 4242 950 \<in> set ?t" "spawned_task ''t2'' 4243 960 \<in> set ?t"
    by simp_all
  have 3: "bt_status (spawned_task ''t1'' 4242 950) = ''running''"
          "bt_status (spawned_task ''t2'' 4243 960) = ''running''"
    by (simp_all add: spawned_task_def)
  have 4: "\<not> timed_out 1000 (spawned_task ''t1'' 4242 950)"
          "\<not> timed_out 1000 (spawned_task ''t2'' 4243 960)"
    by (simp_all add: timed_out_def spawned_task_def queued_task_def)
  have 5: "bt_metadata (spawned_task ''t1'' 4242 950) = Some ?md1"
          "bt_metadata (spawned_task ''t2'' 4243 960) = Some ?md2"
    by (simp_all add: spawned_task_def)
  have 6: "dict_get ?md1 ''pid'' = Some (JInt 4242)" "dict_get ?md2 ''pid'' = Some (JInt 4243)"
    by (simp_all add: dict_get_def)
  have 7: "process_gone (\<lambda>pid. False) (JInt 4242)" "process_gone (\<lambda>pid. False) (JInt 4243)"
    by (simp_all add: process_gone_def)
  have o1: "''12 passed''
              = (case dict_get ?md1 ''stdout_file'' of
                   Some (JStr p) \<Rightarrow> if p = [] then [] else (case ?fs p of Some text \<Rightarrow> text | None \<Rightarrow> [])
                 | _ \<Rightarrow> [])"
    by (simp add: dict_get_def)
  have e1: "[] = (case dict_get ?md1 ''stderr_file'' of
                   Some (JStr p) \<Rightarrow> if p = [] then [] else (case ?fs p of Some text \<Rightarrow> text | None \<Rightarrow> [])
                 | _ \<Rightarrow> [])"
    by (simp add: dict_get_def)
  have o2: "''cc -c main.c''
              = (case dict_get ?md2 ''stdout_file'' of
                   Some (JStr p) \<Rightarrow> if p = [] then [] else (case ?fs p of Some text \<Rightarrow> text | None \<Rightarrow> [])
                 | _ \<Rightarrow> [])"
    by (simp add: dict_get_def)
  have e2: "''make: *** Error 2''
              = (case dict_get ?md2 ''stderr_file'' of
                   Some (JStr p) \<Rightarrow> if p = [] then [] else (case ?fs p of Some text \<Rightarrow> text | None \<Rightarrow> [])
                 | _ \<Rightarrow> [])"
    by (simp add: dict_get_def)
  have id: "bt_task_id (spawned_task ''t1'' 4242 950) = ''t1''"
           "bt_task_id (spawned_task ''t2'' 4243 960) = ''t2''"
    by (simp_all add: spawned_task_def queued_task_def)
  show ?thesis
    using poll_classifies_by_stderr [OF 1 2(1) 3(1) 4(1) 5(1) 6(1) 7(1) o1 e1]
          poll_classifies_by_stderr [OF 1 2(2) 3(2) 4(2) 5(2) 6(2) 7(2) o2 e2]
    unfolding id by (simp only: list.simps if_True if_False simp_thms)
qed

text \<open>
  The harvest where nothing raises: a row with exit code 0 and no stdout text gives no
  feedback value, and every fetched row is deleted whether or not it gave one.
\<close>

lemma parse_quiet_success:
  assumes "bt_exit_code task = Some 0" "nonempty (bt_stdout task) = None"
  shows "parse_task_output loads task = Inr None"
  using assms
  by (auto simp: parse_task_output_def structured_feedback_def raw_feedback_def nonempty_def
        split: option.splits if_splits)

lemma harvest_deletes_fetched_rows:
  assumes "\<forall>r \<in> set rows. \<forall>e. parse_task_output loads r \<noteq> Inl e"
  shows "snd (harvest loads rows items t) = filter (\<lambda>r. bt_task_id r \<notin> bt_task_id ` set rows) t
       \<and> (\<exists>fbs. fst (harvest loads rows items t) = Inr fbs)"
  using assms
proof (induction rows arbitrary: items t)
  case Nil
  then show ?case by simp
next
  case (Cons r rows)
  obtain fb where fb: "parse_task_output loads r = Inr fb"
    using Cons.prems by (cases "parse_task_output loads r") auto
  have "filter (\<lambda>x. bt_task_id x \<notin> bt_task_id ` set rows) (mark_task_consumed (bt_task_id r) t)
          = filter (\<lambda>x. bt_task_id x \<notin> bt_task_id ` set (r # rows)) t"
    by (induction t) (auto simp: mark_task_consumed_def)
  then show ?case
    using Cons.IH [of "items @ (case fb of Some f \<Rightarrow> [f] | None \<Rightarrow> [])"
                      "mark_task_consumed (bt_task_id r) t"] Cons.prems fb
    by simp
qed

text \<open>
  C10 on a queue where it fails. Two completed rows are fetched, \<open>t2\<close> first. The stdout
  of \<open>t2\<close> is a JSON object whose \<open>feedback\<close> list starts with a string; \<open>first.get\<close>
  raises \<open>AttributeError\<close>, which \<open>_parse_task_output\<close> does not catch, and the pass ends
  there: neither \<open>t2\<close> nor the quiet row \<open>t1\<close> (exit code 0, empty stdout) is deleted.
\<close>

theorem harvest_aborts_on_non_object_feedback:
  \<open>process_completed_tasks
     (\<lambda>s. if s = ''{"feedback": ["disk full"]}''
           then Some (JDict [(''feedback'', JList [JStr ''disk full''])]) else None)
     [(queued_task ''t1'')\<lparr> bt_status := ''completed'', bt_completed_at := Some 900,
                             bt_exit_code := Some 0, bt_stdout := Some [] \<rparr>,
      (queued_task ''t2'')\<lparr> bt_status := ''completed'', bt_completed_at := Some 1000,
                             bt_exit_code := Some 0,
                             bt_stdout := Some ''{"feedback": ["disk full"]}'' \<rparr>]
   = (Inl (AttributeError (CHR 0x27 # ''str'' @ [CHR 0x27] @ '' object has no attribute ''
                           @ [CHR 0x27] @ ''get'' @ [CHR 0x27])),
      [(queued_task ''t1'')\<lparr> bt_status := ''completed'', bt_completed_at := Some 900,
                              bt_exit_code := Some 0, bt_stdout := Some [] \<rparr>,
       (queued_task ''t2'')\<lparr> bt_status := ''completed'', bt_completed_at := Some 1000,
                              bt_exit_code := Some 0,
                              bt_stdout := Some ''{"feedback": ["disk full"]}'' \<rparr>])\<close>
  by (simp add: process_completed_tasks_def get_completed_tasks_def order_desc_def
        parse_task_output_def structured_feedback_def queued_task_def dict_get_def type_name_def)

section \<open>Properties of the router\<close>

lemma dict_get_dict_set_other: "k \<noteq> k' \<Longrightarrow> dict_get (dict_set d k' v) k = dict_get d k"
  by (induction d) (auto simp: dict_get_def)

lemma dict_get_common_fields:
  "k \<noteq> ''suppressOutput'' \<Longrightarrow> k \<noteq> ''systemMessage''
     \<Longrightarrow> dict_get (common_fields results p) k = dict_get p k"
  by (simp add: common_fields_def Let_def dict_get_dict_set_other)


lemma fst_respond:
  "fst (respond rt event cfg sid results w)
     = common_fields results
         (event_response event (blocks_of (r_str rt) (block_on_of cfg) results)
            (fst (if event = ''PostToolUse''
                  then dedupe_adds (r_sha rt) (r_now rt) sid
                         (adds_of (r_str rt) (block_on_of cfg) results) (w_feedback w)
                  else (adds_of (r_str rt) (block_on_of cfg) results, w_feedback w)))
            (pre_decisions_of results) (enders_of results))"
  by (simp add: respond_def Let_def)




lemma respond_session_end_continue:
  "dict_get (fst (respond rt ''SessionEnd'' cfg sid results w)) ''continue'' = Some (JBool True)"
  by (simp add: fst_respond dict_get_common_fields event_response_def with_context_def)
     (simp add: dict_get_def)

lemma respond_session_end_clean:
  "w_feedback (snd (respond rt ''SessionEnd'' cfg sid results w)) (fb_db_name sid) = None
   \<and> w_queue (snd (respond rt ''SessionEnd'' cfg sid results w)) (tq_session_name sid) = None
   \<and> w_incoming (snd (respond rt ''SessionEnd'' cfg sid results w)) (tq_session_name sid) = None"
  by (simp add: respond_def Let_def cleanup_task_session_def fb_cleanup_session_def)

text \<open>
  C1, as the code has it. For a hook input whose event is \<open>SessionEnd\<close>: when the
  configuration fails to load, the response is the stop response, with \<open>continue\<close> false.
  When the configuration loads and the invocation prints a response, that response has
  \<open>continue\<close> true; and when at least one task is selected for the event, the world left
  behind has no feedback database, no queue database and no drop-in directory for the
  payload's session.
\<close>

theorem session_end_continues_and_cleans:
  assumes ev: "dict_get pl ''hook_event_name'' = Some (JStr ''SessionEnd'')"
  shows "(\<forall>e. load_config (r_load rt) (case config_paths of None \<Rightarrow> PathNone | Some ps \<Rightarrow> PathList ps) = Inl e
             \<longrightarrow> main rt config_paths pl w
                   = (Printed (stop_response ''SessionEnd'' (''xenohooks: '' @ load_error_text e)), w))
       \<and> (\<forall>cfg response w'.
             load_config (r_load rt) (case config_paths of None \<Rightarrow> PathNone | Some ps \<Rightarrow> PathList ps) = Inr cfg
             \<longrightarrow> main rt config_paths pl w = (Printed response, w')
             \<longrightarrow> dict_get response ''continue'' = Some (JBool True)
                 \<and> (selected_tasks rt ''SessionEnd'' cfg pl \<noteq> []
                      \<longrightarrow> w_feedback w' (fb_db_name (session_of rt pl)) = None
                          \<and> w_queue w' (tq_session_name (session_of rt pl)) = None
                          \<and> w_incoming w' (tq_session_name (session_of rt pl)) = None))"
proof (intro conjI allI impI)
  fix e
  assume "load_config (r_load rt) (case config_paths of None \<Rightarrow> PathNone | Some ps \<Rightarrow> PathList ps) = Inl e"
  then show "main rt config_paths pl w
               = (Printed (stop_response ''SessionEnd'' (''xenohooks: '' @ load_error_text e)), w)"
    using ev by (simp add: main_def)
next
  fix cfg response w'
  assume cfg: "load_config (r_load rt) (case config_paths of None \<Rightarrow> PathNone | Some ps \<Rightarrow> PathList ps) = Inr cfg"
     and run: "main rt config_paths pl w = (Printed response, w')"
  show "dict_get response ''continue'' = Some (JBool True)"
    using run ev cfg respond_session_end_continue
    by (auto simp: main_def Let_def dict_get_def [of "[(''continue'', JBool True)]"]
          split: sum.splits if_splits)
next
  fix cfg response w'
  assume cfg: "load_config (r_load rt) (case config_paths of None \<Rightarrow> PathNone | Some ps \<Rightarrow> PathList ps) = Inr cfg"
     and run: "main rt config_paths pl w = (Printed response, w')"
     and tasks: "selected_tasks rt ''SessionEnd'' cfg pl \<noteq> []"
  show "w_feedback w' (fb_db_name (session_of rt pl)) = None"
    using run ev cfg tasks respond_session_end_clean
    by (auto simp: main_def Let_def split: sum.splits if_splits)
next
  fix cfg response w'
  assume cfg: "load_config (r_load rt) (case config_paths of None \<Rightarrow> PathNone | Some ps \<Rightarrow> PathList ps) = Inr cfg"
     and run: "main rt config_paths pl w = (Printed response, w')"
     and tasks: "selected_tasks rt ''SessionEnd'' cfg pl \<noteq> []"
  show "w_queue w' (tq_session_name (session_of rt pl)) = None"
    using run ev cfg tasks respond_session_end_clean
    by (auto simp: main_def Let_def split: sum.splits if_splits)
next
  fix cfg response w'
  assume cfg: "load_config (r_load rt) (case config_paths of None \<Rightarrow> PathNone | Some ps \<Rightarrow> PathList ps) = Inr cfg"
     and run: "main rt config_paths pl w = (Printed response, w')"
     and tasks: "selected_tasks rt ''SessionEnd'' cfg pl \<noteq> []"
  show "w_incoming w' (tq_session_name (session_of rt pl)) = None"
    using run ev cfg tasks respond_session_end_clean
    by (auto simp: main_def Let_def split: sum.splits if_splits)
qed


theorem session_end_continues_and_cleans_witness:
  "fst (main (configured_runtime (JDict [(''SessionEnd'', JList [JStr ''pkg.notify''])])) None
          session_end_input stored_world)
     = Printed [(''continue'', JBool True)]
   \<and> w_feedback (snd (main (configured_runtime (JDict [(''SessionEnd'', JList [JStr ''pkg.notify''])]))
                          None session_end_input stored_world)) ''s1'' = None
   \<and> w_queue (snd (main (configured_runtime (JDict [(''SessionEnd'', JList [JStr ''pkg.notify''])]))
                       None session_end_input stored_world)) ''s1'' = None
   \<and> w_incoming (snd (main (configured_runtime (JDict [(''SessionEnd'', JList [JStr ''pkg.notify''])]))
                          None session_end_input stored_world)) ''s1'' = None"
proof -
  let ?rt = "configured_runtime (JDict [(''SessionEnd'', JList [JStr ''pkg.notify''])])"
  let ?cfg = "merge_configs DEFAULTS [(''SessionEnd'', JList [JStr ''pkg.notify''])]"
  have ev: "dict_get session_end_input ''hook_event_name'' = Some (JStr ''SessionEnd'')"
    by (simp add: session_end_input_def dict_get_def)
  have cfg: "load_config (r_load ?rt) (case None of None \<Rightarrow> PathNone | Some ps \<Rightarrow> PathList ps) = Inr ?cfg"
    by code_simp
  have out: "fst (main ?rt None session_end_input stored_world) = Printed [(''continue'', JBool True)]"
    by code_simp
  then have run: "main ?rt None session_end_input stored_world
                    = (Printed [(''continue'', JBool True)],
                       snd (main ?rt None session_end_input stored_world))"
    by (metis prod.collapse)
  have "map td_id (selected_tasks ?rt ''SessionEnd'' ?cfg session_end_input) = [''pkg.notify'']"
    by code_simp
  then have tasks: "selected_tasks ?rt ''SessionEnd'' ?cfg session_end_input \<noteq> []"
    by auto
  have sid: "session_of ?rt session_end_input = ''s1''"
    by (simp add: session_of_def session_end_input_def dict_get_def py_str_def)
  have names: "fb_db_name ''s1'' = ''s1''" "tq_session_name ''s1'' = ''s1''"
    by (simp_all add: fb_db_name_def tq_session_name_def)
  show ?thesis
    using session_end_continues_and_cleans [OF ev, of ?rt None stored_world] cfg run tasks out
    by (simp add: sid names)
qed

text \<open>
  C1 as stated fails twice. With no configuration to be found, the \<open>SessionEnd\<close>
  invocation prints the stop response, whose \<open>continue\<close> is false. With a configuration
  that names no task for \<open>SessionEnd\<close>, it prints \<open>{"continue": true}\<close> and returns before
  the cleanup: the feedback row, the queued task and the drop-in directory of session
  \<open>s1\<close> are still there.
\<close>

theorem session_end_stops_or_skips_cleanup:
  "fst (main quiet_runtime None session_end_input stored_world)
     = Printed (stop_response ''SessionEnd''
         ''xenohooks: No hooks config found. Provide --config or add hooks.yml in your project.'')
   \<and> dict_get (stop_response ''SessionEnd''
         ''xenohooks: No hooks config found. Provide --config or add hooks.yml in your project.'')
        ''continue'' = Some (JBool False)
   \<and> fst (main (configured_runtime (JDict [])) None session_end_input stored_world)
     = Printed [(''continue'', JBool True)]
   \<and> w_feedback (snd (main (configured_runtime (JDict [])) None session_end_input stored_world)) ''s1''
     = Some [empty_item ''old'']
   \<and> w_queue (snd (main (configured_runtime (JDict [])) None session_end_input stored_world)) ''s1''
     = Some [queued_task ''t1'']
   \<and> w_incoming (snd (main (configured_runtime (JDict [])) None session_end_input stored_world)) ''s1''
     = Some []"
  by code_simp

end
